theory Spec2Isabelle
  imports Main "HOL-Library.Sublist"
begin

section \<open>Exceptions, command results and the process state\<close>

text \<open>
  The bots are Deno scripts. What they throw is a value of \<open>exn\<close>: the errors of the
  Deno file-system calls (\<open>NotFound\<close>, \<open>NotADirectory\<close>, \<open>IsADirectory\<close>), the errors of the parsers
  (\<open>SyntaxError\<close>, \<open>TypeError\<close>), the \<open>SuppressedError\<close> that a \<^verbatim>\<open>using\<close>
  declaration raises when both the scope's body and the disposer throw, and \<open>Failure\<close> for
  every other thrown value (\<^verbatim>\<open>throw new Error(msg)\<close>).
  A computation that may throw returns \<open>exn + 'a\<close> together with the state it leaves.
\<close>

datatype exn =
    NotFound string
  | NotADirectory string
  | IsADirectory string
  | SyntaxError
  | TypeError
  | SuppressedError exn exn
  | Failure string

text \<open>The object \<^verbatim>\<open>run\<close> returns: \<^verbatim>\<open>{ success, stdout, stderr }\<close>.\<close>

record run_result =
  success :: bool
  stdout :: string
  stderr :: string

section \<open>utils.ts: retry\<close>

text \<open>
  \<^verbatim>\<open>
  export async function retry(fn: () => Promise<void>) {
    while (true) {
      try { await fn(); return; }
      catch (e) {
        console.log("error", e);
        if (!confirm("Do you want to retry ? ")) { return; }
      }
    }
  }
  \<close>
  \<open>fn\<close> and the operator's \<open>confirm\<close> act on a state \<open>'s\<close> (everything they can read
  and change). The loop has no bound, so \<open>retry\<close> is a partial function: \<open>None\<close> is the run
  that never returns, \<open>Some s\<close> a normal return in state \<open>s\<close>. \<open>retry\<close> has no path that
  throws: the only exception in scope is the one it catches.
\<close>

partial_function (option) retry ::
  "('s \<Rightarrow> (exn + unit) \<times> 's) \<Rightarrow> ('s \<Rightarrow> bool \<times> 's) \<Rightarrow> 's \<Rightarrow> 's option"
where
  "retry fn confirm s =
     (case fn s of
        (Inr u, s1) \<Rightarrow> Some s1
      | (Inl e, s1) \<Rightarrow>
          (case confirm s1 of
             (answer, s2) \<Rightarrow> if \<not> answer then Some s2 else retry fn confirm s2))"

text \<open>
  Counting the calls of \<open>fn\<close>: the state is paired with a counter that every call of
  \<open>fn\<close> increments and that \<open>confirm\<close> leaves alone.
\<close>

definition counting :: "('s \<Rightarrow> 'r \<times> 's) \<Rightarrow> nat \<times> 's \<Rightarrow> 'r \<times> (nat \<times> 's)" where
  "counting f = (\<lambda>(n, s). case f s of (r, s1) \<Rightarrow> (r, (Suc n, s1)))"

definition uncounted :: "('s \<Rightarrow> 'r \<times> 's) \<Rightarrow> nat \<times> 's \<Rightarrow> 'r \<times> (nat \<times> 's)" where
  "uncounted f = (\<lambda>(n, s). case f s of (r, s1) \<Rightarrow> (r, (n, s1)))"

text \<open>One failed attempt followed by the operator's answer: the state after both.\<close>

definition attempt :: "('s \<Rightarrow> (exn + unit) \<times> 's) \<Rightarrow> ('s \<Rightarrow> bool \<times> 's) \<Rightarrow> 's \<Rightarrow> 's" where
  "attempt fn confirm s = snd (confirm (snd (fn s)))"

text \<open>The operator's answer to the prompt that follows the attempt made in state \<open>s\<close>.\<close>

definition answer_after :: "('s \<Rightarrow> (exn + unit) \<times> 's) \<Rightarrow> ('s \<Rightarrow> bool \<times> 's) \<Rightarrow> 's \<Rightarrow> bool" where
  "answer_after fn confirm s = fst (confirm (snd (fn s)))"

text \<open>A pipeline that throws whatever the state: \<open>fn\<close> always fails.\<close>

definition always_throws :: "('s \<Rightarrow> (exn + unit) \<times> 's) \<Rightarrow> bool" where
  "always_throws fn = (\<forall>s. \<exists>e. fst (fn s) = Inl e)"

text \<open>An operator who answers the prompts from a list, and "no" once it is used up.\<close>

definition scripted_confirm :: "bool list \<Rightarrow> bool \<times> bool list" where
  "scripted_confirm answers = (case answers of [] \<Rightarrow> (False, []) | b # bs \<Rightarrow> (b, bs))"

definition failing_pipeline :: "bool list \<Rightarrow> (exn + unit) \<times> bool list" where
  "failing_pipeline s = (Inl (Failure ''boom''), s)"

section \<open>The world: working directory, file system, external commands\<close>

text \<open>
  Strings are lists of characters; file contents, paths and command arguments are
  strings. The model is about ASCII text: on it the code units JavaScript counts and
  the characters counted here are the same.

  The state of a run is a \<open>world\<close>: the process's working directory, the files (absolute
  path to content), the directories (absolute path to the entries \<^verbatim>\<open>Deno.readDirSync\<close>
  yields, in iteration order), the external commands run so far with their results,
  oldest first, and \<open>outside\<close>: whatever else the external commands depend on (the remote
  platform, the git metadata). Failures of the operating system (permissions, a full disk,
  a missing executable) are outside the model; what is in it is every failure that depends
  on the state it tracks: a missing file or directory, a failed parse, a failed command.
\<close>

record dirent =
  entry_name :: string
  entry_isFile :: bool

record 'x world =
  cwd :: string
  files :: "string \<rightharpoonup> string"
  dirs :: "string \<rightharpoonup> dirent list"
  ran :: "(string list \<times> run_result) list"
  outside :: 'x

text \<open>
  A relative path is resolved against the working directory, an absolute one stands. The
  path is joined as it is written: this is what Deno resolves it to when no segment of it
  is empty, \<^verbatim>\<open>.\<close> or \<^verbatim>\<open>..\<close> (\<open>plain_path\<close> below), which holds of every path the bots
  pass (a repository name, \<^verbatim>\<open>themes/<entry>\<close>, \<^verbatim>\<open><name>/extension.toml\<close>, a path built
  from \<^verbatim>\<open>Deno.cwd()\<close>).
\<close>

definition resolve :: "string \<Rightarrow> string \<Rightarrow> string" where
  "resolve base p = (if p \<noteq> [] \<and> hd p = CHR ''/'' then p else base @ ''/'' @ p)"

text \<open>\<^verbatim>\<open>existsSync(path)\<close>: something, a file or a directory, is at the path.\<close>

definition existsSync :: "string \<Rightarrow> 'x world \<Rightarrow> bool" where
  "existsSync p w =
     (files w (resolve (cwd w) p) \<noteq> None \<or> dirs w (resolve (cwd w) p) \<noteq> None)"

text \<open>
  \<^verbatim>\<open>Deno.readTextFileSync(path)\<close> throws when no file is at the path: \<open>IsADirectory\<close>
  when a directory is there, \<open>NotFound\<close> when nothing is.
\<close>

definition readTextFileSync :: "string \<Rightarrow> 'x world \<Rightarrow> (exn + string) \<times> 'x world" where
  "readTextFileSync p w =
     (case files w (resolve (cwd w) p) of
        None \<Rightarrow>
          (Inl (if dirs w (resolve (cwd w) p) = None then NotFound p else IsADirectory p), w)
      | Some content \<Rightarrow> (Inr content, w))"

text \<open>\<^verbatim>\<open>Deno.writeTextFileSync(path, data)\<close> creates the file or replaces its content.\<close>

definition writeTextFileSync :: "string \<Rightarrow> string \<Rightarrow> 'x world \<Rightarrow> 'x world" where
  "writeTextFileSync p content w = w\<lparr>files := (files w)(resolve (cwd w) p \<mapsto> content)\<rparr>"

text \<open>
  \<^verbatim>\<open>Deno.readDirSync(path)\<close> throws when the path is not a directory: \<open>NotADirectory\<close>
  when a file is there, \<open>NotFound\<close> when nothing is.
\<close>

definition readDirSync :: "string \<Rightarrow> 'x world \<Rightarrow> (exn + dirent list) \<times> 'x world" where
  "readDirSync p w =
     (case dirs w (resolve (cwd w) p) of
        Some entries \<Rightarrow> (Inr entries, w)
      | None \<Rightarrow>
          (Inl (if files w (resolve (cwd w) p) = None then NotFound p else NotADirectory p), w))"

text \<open>\<^verbatim>\<open>Deno.chdir(dir)\<close> throws unless the directory exists (\<open>NotFound\<close>, \<open>NotADirectory\<close>).\<close>

definition chdir :: "string \<Rightarrow> 'x world \<Rightarrow> (exn + unit) \<times> 'x world" where
  "chdir dir w =
     (case dirs w (resolve (cwd w) dir) of
        Some entries \<Rightarrow> (Inr (), w\<lparr>cwd := resolve (cwd w) dir\<rparr>)
      | None \<Rightarrow>
          (Inl (if files w (resolve (cwd w) dir) = None then NotFound dir else NotADirectory dir),
           w))"

text \<open>
  An external command is a function of the world: \<open>exec cmd w\<close> is what the command
  reports and the world it leaves (git and gh write files, create directories and change
  the remote). \<^verbatim>\<open>run\<close> spawns the command, waits for it and returns its result; a child
  process cannot change the working directory of the bot, and the command with its result
  is appended to the transcript \<open>ran\<close>.
\<close>

type_synonym 'x exec = "string list \<Rightarrow> 'x world \<Rightarrow> run_result \<times> 'x world"

definition run :: "'x exec \<Rightarrow> string list \<Rightarrow> 'x world \<Rightarrow> run_result \<times> 'x world" where
  "run exec cmd w =
     (case exec cmd w of
        (r, w1) \<Rightarrow> (r, w1\<lparr>cwd := cwd w, ran := ran w @ [(cmd, r)]\<rparr>))"

section \<open>utils.ts: switchDirTemp and the using declaration\<close>

text \<open>
  \<^verbatim>\<open>
  export function switchDirTemp(dir: string) {
    const originalDir = Deno.cwd();
    Deno.chdir(dir);
    return { [Symbol.dispose]() { Deno.chdir(originalDir); } };
  }
  \<close>
  The returned object is its \<open>originalDir\<close>; \<open>dispose\<close> is its \<^verbatim>\<open>[Symbol.dispose]\<close>.
\<close>

definition switchDirTemp :: "string \<Rightarrow> 'x world \<Rightarrow> (exn + string) \<times> 'x world" where
  "switchDirTemp dir w =
     (let originalDir = cwd w in
      case chdir dir w of
        (Inl e, w1) \<Rightarrow> (Inl e, w1)
      | (Inr u, w1) \<Rightarrow> (Inr originalDir, w1))"

definition dispose :: "string \<Rightarrow> 'x world \<Rightarrow> (exn + unit) \<times> 'x world" where
  "dispose originalDir w = chdir originalDir w"

text \<open>
  \<^verbatim>\<open>using _ = switchDirTemp(dir); body\<close>: when \<open>switchDirTemp\<close> throws, the scope is left with
  that exception and nothing is disposed. Otherwise the body runs, and however it ends,
  by a value (the end of the block or a \<^verbatim>\<open>return\<close>) or by an exception, the disposer
  runs next. If the disposer throws, the scope throws: the disposer's exception when the
  body ended by a value, a \<open>SuppressedError\<close> of both when the body threw.
\<close>

definition using_switchDirTemp ::
  "string \<Rightarrow> ('x world \<Rightarrow> (exn + 'a) \<times> 'x world) \<Rightarrow> 'x world \<Rightarrow> (exn + 'a) \<times> 'x world"
where
  "using_switchDirTemp dir body w =
     (case switchDirTemp dir w of
        (Inl e, w1) \<Rightarrow> (Inl e, w1)
      | (Inr originalDir, w1) \<Rightarrow>
          (case body w1 of
             (r, w2) \<Rightarrow>
               (case dispose originalDir w2 of
                  (Inr u, w3) \<Rightarrow> (r, w3)
                | (Inl e2, w3) \<Rightarrow>
                    (case r of
                       Inl e1 \<Rightarrow> (Inl (SuppressedError e2 e1), w3)
                     | Inr v \<Rightarrow> (Inl e2, w3)))))"

section \<open>Decimal numerals\<close>

text \<open>A number in a template literal or printed by \<^verbatim>\<open>toFixed(0)\<close>: its decimal digits.\<close>

definition digit_char :: "nat \<Rightarrow> char" where
  "digit_char d = ''0123456789'' ! d"

fun show_nat :: "nat \<Rightarrow> string" where
  "show_nat n = (if n < 10 then [digit_char n] else show_nat (n div 10) @ [digit_char (n mod 10)])"

section \<open>utils.ts: openPR, fetchPrAndSetupBranch, updatePr\<close>

record pr_args =
  repoUser :: string
  repoName :: string
  botUsername :: string
  commitMsg :: string
  prTitle :: string
  prBody :: string

text \<open>
  \<open>openPR\<close> follows the source line by line; \<open>now\<close> is the value of \<^verbatim>\<open>Date.now()\<close>.
  The results of the commands before the commit are not looked at (only logged). The
  statements in the scope of a \<^verbatim>\<open>using\<close> declaration are a function of their own
  (\<open>openPR_steps\<close>), which \<open>using_switchDirTemp\<close> runs between the switch and the disposal.
\<close>

definition openPR_steps ::
  "'x exec \<Rightarrow> string \<Rightarrow> pr_args \<Rightarrow> 'x world \<Rightarrow> (exn + unit) \<times> 'x world"
where
  "openPR_steps exec branchName a w0 =
     (case run exec [''git'', ''diff''] w0 of (diff, w1) \<Rightarrow>
      case run exec [''gh'', ''repo'', ''fork'', repoUser a @ ''/'' @ repoName a,
                     ''--remote=false''] w1 of (forked, w2) \<Rightarrow>
      case run exec [''git'', ''remote'', ''add'', ''fork'',
                     ''https://github.com/'' @ botUsername a @ ''/'' @ repoName a @ ''.git'']
             w2 of (remote, w3) \<Rightarrow>
      case run exec [''git'', ''checkout'', ''-b'', branchName] w3 of (branched, w4) \<Rightarrow>
      case run exec [''git'', ''add'', ''.''] w4 of (added, w5) \<Rightarrow>
      case run exec [''git'', ''commit'', ''-m'', commitMsg a] w5 of (commitResult, w6) \<Rightarrow>
      if \<not> success commitResult then (Inr (), w6)
      else
        case run exec [''git'', ''push'', ''-u'', ''fork'', branchName] w6 of (pushed, w7) \<Rightarrow>
        case run exec [''gh'', ''pr'', ''create'', ''--title'', prTitle a, ''--body'', prBody a,
                       ''--repo'', repoUser a @ ''/'' @ repoName a] w7 of (prResult, w8) \<Rightarrow>
        (Inr (), w8))"

definition openPR :: "'x exec \<Rightarrow> nat \<Rightarrow> pr_args \<Rightarrow> 'x world \<Rightarrow> (exn + unit) \<times> 'x world" where
  "openPR exec now a w =
     (let branchName = ''update-attr-'' @ show_nat now in
      using_switchDirTemp (repoName a) (openPR_steps exec branchName a) w)"

definition fetchPrAndSetupBranch_steps ::
  "'x exec \<Rightarrow> string \<Rightarrow> string \<Rightarrow> string \<Rightarrow> 'x world \<Rightarrow> (exn + unit) \<times> 'x world"
where
  "fetchPrAndSetupBranch_steps exec name branchName botUser w0 =
     (case run exec [''git'', ''remote'', ''add'', ''fork'',
                     ''https://github.com/'' @ botUser @ ''/'' @ name @ ''.git''] w0
        of (remote, w1) \<Rightarrow>
      case run exec [''git'', ''fetch'', ''fork''] w1 of (fetched, w2) \<Rightarrow>
      case run exec [''git'', ''checkout'', ''fork/'' @ branchName] w2 of (checked, w3) \<Rightarrow>
      (Inr (), w3))"

definition fetchPrAndSetupBranch ::
  "'x exec \<Rightarrow> string \<Rightarrow> string \<Rightarrow> string \<Rightarrow> 'x world \<Rightarrow> (exn + unit) \<times> 'x world"
where
  "fetchPrAndSetupBranch exec name branchName botUser w =
     using_switchDirTemp name (fetchPrAndSetupBranch_steps exec name branchName botUser) w"

text \<open>\<open>updatePr\<close> takes \<^verbatim>\<open>{ repoUser, repoName, branchName }\<close>; its commit message is fixed.\<close>

definition updatePr_steps :: "'x exec \<Rightarrow> string \<Rightarrow> 'x world \<Rightarrow> (exn + unit) \<times> 'x world" where
  "updatePr_steps exec branchName w0 =
     (case run exec [''git'', ''diff''] w0 of (diff, w1) \<Rightarrow>
      case run exec [''git'', ''add'', ''.''] w1 of (added, w2) \<Rightarrow>
      case run exec [''git'', ''commit'', ''-m'',
                     ''rename scrollbar_thumb.background to scrollbar.thumb.background''] w2
        of (commitResult, w3) \<Rightarrow>
      if \<not> success commitResult then (Inr (), w3)
      else
        case run exec [''git'', ''push'', ''-u'', ''fork'', branchName] w3 of (pushed, w4) \<Rightarrow>
        (Inr (), w4))"

definition updatePr ::
  "'x exec \<Rightarrow> string \<Rightarrow> string \<Rightarrow> string \<Rightarrow> 'x world \<Rightarrow> (exn + unit) \<times> 'x world"
where
  "updatePr exec user name branchName w =
     using_switchDirTemp name (updatePr_steps exec branchName) w"

text \<open>
  The commands a call has run: what it appended to the transcript. A commit step that
  reported failure, a push and a PR creation are recognised by the command line.
\<close>

definition ran_since :: "'x world \<Rightarrow> 'x world \<Rightarrow> (string list \<times> run_result) list" where
  "ran_since w w' = drop (length (ran w)) (ran w')"

definition is_commit :: "string list \<Rightarrow> bool" where
  "is_commit cmd = (take 2 cmd = [''git'', ''commit''])"

definition is_push :: "string list \<Rightarrow> bool" where
  "is_push cmd = (take 2 cmd = [''git'', ''push''])"

definition is_pr_create :: "string list \<Rightarrow> bool" where
  "is_pr_create cmd = (take 3 cmd = [''gh'', ''pr'', ''create''])"

definition commit_failed :: "(string list \<times> run_result) list \<Rightarrow> bool" where
  "commit_failed log = list_ex (\<lambda>(cmd, r). is_commit cmd \<and> \<not> success r) log"

definition pushed_or_created :: "(string list \<times> run_result) list \<Rightarrow> bool" where
  "pushed_or_created log = list_ex (\<lambda>(cmd, r). is_push cmd \<or> is_pr_create cmd) log"

section \<open>JavaScript string methods\<close>

text \<open>
  \<^verbatim>\<open>s.endsWith(x)\<close>, \<^verbatim>\<open>s.includes(x)\<close> and \<^verbatim>\<open>s.replaceAll(x, y)\<close> for a string \<open>x\<close>.
  \<open>replaceAll\<close> replaces the occurrences of the pattern found from left to right, each
  search starting after the previous match; with the empty pattern it inserts the
  replacement before every character and at the end. The replacement is inserted as it
  is: the one replacement the bots pass has no \<^verbatim>\<open>$\<close>, the only character a replacement
  string treats specially.
\<close>

definition endsWith :: "string \<Rightarrow> string \<Rightarrow> bool" where
  "endsWith x s = (length x \<le> length s \<and> drop (length s - length x) s = x)"

fun str_includes :: "string \<Rightarrow> string \<Rightarrow> bool" where
  "str_includes x [] = (x = [])"
| "str_includes x (c # cs) = (prefix x (c # cs) \<or> str_includes x cs)"

function replaceAll :: "string \<Rightarrow> string \<Rightarrow> string \<Rightarrow> string" where
  "replaceAll x y s =
     (if x = [] then concat (map (\<lambda>c. y @ [c]) s) @ y
      else if s = [] then []
      else if prefix x s then y @ replaceAll x y (drop (length x) s)
      else hd s # replaceAll x y (tl s))"
  by pat_completeness auto
termination
  by (relation "measure (\<lambda>(x, y, s). length s)") auto

declare replaceAll.simps [simp del]

section \<open>bot2101.ts: patchScrollbarThumbBg, findThemes\<close>

text \<open>
  \<^verbatim>\<open>
  function* findThemes() {
    for (const entry of Deno.readDirSync("themes")) {
      if (entry.name.endsWith(".json")) { yield `themes/${entry.name}`; }
    }
  }
  \<close>
  The loop that consumes the generator creates and removes no file, so the paths it is
  given are those of the directory as it is when the loop starts.
\<close>

definition findThemes :: "'x world \<Rightarrow> (exn + string list) \<times> 'x world" where
  "findThemes w =
     (case readDirSync ''themes'' w of
        (Inl e, w1) \<Rightarrow> (Inl e, w1)
      | (Inr entries, w1) \<Rightarrow>
          (Inr (map (\<lambda>entry. ''themes/'' @ entry_name entry)
                  (filter (\<lambda>entry. endsWith ''.json'' (entry_name entry)) entries)),
           w1))"

definition old_key :: string where
  "old_key = ''scrollbar_thumb.background''"

definition new_key :: string where
  "new_key = ''scrollbar.thumb.background''"

text \<open>
  The body of \<^verbatim>\<open>for (const themePath of findThemes())\<close>, over the paths left to visit;
  \<open>changes\<close> is the variable of that name.
\<close>

fun patch_themes :: "string list \<Rightarrow> bool \<Rightarrow> 'x world \<Rightarrow> (exn + bool) \<times> 'x world" where
  "patch_themes [] changes w = (Inr changes, w)"
| "patch_themes (themePath # rest) changes w =
     (case readTextFileSync themePath w of
        (Inl e, w1) \<Rightarrow> (Inl e, w1)
      | (Inr theme, w1) \<Rightarrow>
          if \<not> str_includes old_key theme then patch_themes rest changes w1
          else patch_themes rest True
                 (writeTextFileSync themePath (replaceAll old_key new_key theme) w1))"

definition patchScrollbarThumbBg_steps :: "'x world \<Rightarrow> (exn + bool) \<times> 'x world" where
  "patchScrollbarThumbBg_steps w0 =
     (case findThemes w0 of
        (Inl e, w1) \<Rightarrow> (Inl e, w1)
      | (Inr themes, w1) \<Rightarrow>
          (case patch_themes themes False w1 of
             (Inl e, w2) \<Rightarrow> (Inl e, w2)
           | (Inr changes, w2) \<Rightarrow> if changes then (Inr True, w2) else (Inr False, w2)))"

definition patchScrollbarThumbBg :: "string \<Rightarrow> 'x world \<Rightarrow> (exn + bool) \<times> 'x world" where
  "patchScrollbarThumbBg repo w = using_switchDirTemp repo patchScrollbarThumbBg_steps w"

text \<open>\<^verbatim>\<open>Deno.cwd()\<close> is an absolute path.\<close>

definition is_absolute :: "string \<Rightarrow> bool" where
  "is_absolute p = (p \<noteq> [] \<and> hd p = CHR ''/'')"

section \<open>JavaScript values and the external libraries\<close>

text \<open>
  What \<^verbatim>\<open>JSON.parse\<close> and the TOML parser return is a \<open>json\<close> value. An object is the list
  of its properties in property order, each key once. Numbers are integers: the only number
  the bots create is \<^verbatim>\<open>schema_version = 1\<close>, and they read none. A JavaScript value is a
  \<open>json option\<close>, \<open>None\<close> being \<^verbatim>\<open>undefined\<close>.
\<close>

datatype json =
    JNull
  | JBool bool
  | JNum int
  | JStr string
  | JArr "json list"
  | JObj "(string \<times> json) list"

text \<open>
  \<^verbatim>\<open>v.k\<close> for the property names the bots read (\<^verbatim>\<open>name\<close>, \<^verbatim>\<open>version\<close>,
  \<^verbatim>\<open>headRefName\<close>, \<^verbatim>\<open>length\<close>): reading a property of \<^verbatim>\<open>null\<close> throws a
  \<open>TypeError\<close>; a string and an array have a \<^verbatim>\<open>length\<close> and none of the other names;
  a number and a boolean have none of them.
\<close>

fun js_get :: "json \<Rightarrow> string \<Rightarrow> exn + json option" where
  "js_get JNull k = Inl TypeError"
| "js_get (JObj props) k = Inr (map_of props k)"
| "js_get (JStr s) k = Inr (if k = ''length'' then Some (JNum (int (length s))) else None)"
| "js_get (JArr xs) k = Inr (if k = ''length'' then Some (JNum (int (length xs))) else None)"
| "js_get (JNum n) k = Inr None"
| "js_get (JBool b) k = Inr None"

text \<open>\<^verbatim>\<open>v[0]\<close>: the first element of an array, the first character of a string.\<close>

fun js_first :: "json \<Rightarrow> exn + json option" where
  "js_first JNull = Inl TypeError"
| "js_first (JObj props) = Inr (map_of props ''0'')"
| "js_first (JStr s) = Inr (case s of [] \<Rightarrow> None | c # cs \<Rightarrow> Some (JStr [c]))"
| "js_first (JArr xs) = Inr (case xs of [] \<Rightarrow> None | x # rest \<Rightarrow> Some x)"
| "js_first (JNum n) = Inr None"
| "js_first (JBool b) = Inr None"

text \<open>
  \<^verbatim>\<open>obj.k = v\<close> in a module (strict mode): an existing property keeps its place, a new one
  goes last; assigning to a property of a string, a number or a boolean throws a
  \<open>TypeError\<close>, as does assigning to one of \<^verbatim>\<open>null\<close>. An array takes the property, which is
  none of its elements.
\<close>

fun set_field :: "string \<Rightarrow> json \<Rightarrow> (string \<times> json) list \<Rightarrow> (string \<times> json) list" where
  "set_field k v [] = [(k, v)]"
| "set_field k v (p # ps) = (if fst p = k then (k, v) # ps else p # set_field k v ps)"

fun js_set :: "json \<Rightarrow> string \<Rightarrow> json \<Rightarrow> exn + json" where
  "js_set (JObj props) k v = Inr (JObj (set_field k v props))"
| "js_set (JArr xs) k v = Inr (JArr xs)"
| "js_set JNull k v = Inl TypeError"
| "js_set (JStr s) k v = Inl TypeError"
| "js_set (JNum n) k v = Inl TypeError"
| "js_set (JBool b) k v = Inl TypeError"

text \<open>
  The functions the bots import and whose code is not theirs are parameters of the model:
  \<^verbatim>\<open>JSON.parse\<close> and \<^verbatim>\<open>parse\<close> of \<^verbatim>\<open>jsr:@std/toml\<close> (\<open>None\<close>: the text does not parse and
  the call throws), \<^verbatim>\<open>stringify\<close> of \<^verbatim>\<open>jsr:@std/toml\<close> and \<^verbatim>\<open>kebabCase\<close> of
  \<^verbatim>\<open>jsr:@luca/cases\<close> (each may throw on a value it does not accept).
\<close>

record libs =
  JSON_parse :: "string \<Rightarrow> json option"
  parseToml :: "string \<Rightarrow> json option"
  stringifyToml :: "json \<Rightarrow> exn + string"
  kebabCase :: "json option \<Rightarrow> exn + string"

section \<open>jsr:@std/semver: parse, increment, format\<close>

text \<open>
  The three functions of \<^verbatim>\<open>jsr:@std/semver@1.0.4\<close> that the bots call, after the library's
  documentation. A version is \<^verbatim>\<open>{ major, minor, patch, prerelease, build }\<close>; a prerelease
  identifier is a number or a string.
\<close>

datatype prerelease_id = PNum nat | PStr string

record semver =
  major :: nat
  minor :: nat
  patch :: nat
  prerelease :: "prerelease_id list"
  build :: "string list"

definition MAX_SAFE_INTEGER :: nat where
  "MAX_SAFE_INTEGER = 9007199254740991"

definition MAX_LENGTH :: nat where
  "MAX_LENGTH = 256"

definition is_digit :: "char \<Rightarrow> bool" where
  "is_digit c = (c \<in> set ''0123456789'')"

definition is_ident_char :: "char \<Rightarrow> bool" where
  "is_ident_char c =
     (c \<in> set ''0123456789abcdefghijklmnopqrstuvwxyzABCDEFGHIJKLMNOPQRSTUVWXYZ-'')"

definition is_space :: "char \<Rightarrow> bool" where
  "is_space c = (c \<in> {CHR 0x09, CHR 0x0A, CHR 0x0B, CHR 0x0C, CHR 0x0D, CHR 0x20})"

text \<open>\<^verbatim>\<open>s.trim()\<close> on ASCII text.\<close>

definition trim :: "string \<Rightarrow> string" where
  "trim s = rev (dropWhile is_space (rev (dropWhile is_space s)))"

text \<open>\<^verbatim>\<open>s.split(sep)\<close> for a one-character separator, and \<^verbatim>\<open>xs.join(sep)\<close>.\<close>

fun split_on :: "char \<Rightarrow> string \<Rightarrow> string list" where
  "split_on sep [] = [[]]"
| "split_on sep (c # cs) =
     (if c = sep then [] # split_on sep cs
      else (case split_on sep cs of
              [] \<Rightarrow> [[c]]
            | x # xs \<Rightarrow> (c # x) # xs))"

fun join :: "string \<Rightarrow> string list \<Rightarrow> string" where
  "join sep [] = []"
| "join sep [x] = x"
| "join sep (x # y # ys) = x @ sep @ join sep (y # ys)"

text \<open>The text before the first \<open>sep\<close>, and the text after it when there is one.\<close>

definition break_at :: "char \<Rightarrow> string \<Rightarrow> string \<times> string option" where
  "break_at sep s =
     (takeWhile (\<lambda>c. c \<noteq> sep) s,
      case dropWhile (\<lambda>c. c \<noteq> sep) s of [] \<Rightarrow> None | c # rest \<Rightarrow> Some rest)"

definition digit_val :: "char \<Rightarrow> nat" where
  "digit_val c = length (takeWhile (\<lambda>d. d \<noteq> c) ''0123456789'')"

definition dec_value :: "string \<Rightarrow> nat" where
  "dec_value s = foldl (\<lambda>n c. 10 * n + digit_val c) 0 s"

text \<open>
  The grammar of the library's \<^verbatim>\<open>FULL_REGEXP\<close>: a numeric identifier is \<^verbatim>\<open>0|[1-9]\d*\<close>,
  a prerelease identifier a numeric one or \<^verbatim>\<open>\d*[a-zA-Z-][a-zA-Z0-9-]*\<close>, a build
  identifier \<^verbatim>\<open>[0-9A-Za-z-]+\<close>.
\<close>

definition is_numeric_id :: "string \<Rightarrow> bool" where
  "is_numeric_id s = (s \<noteq> [] \<and> list_all is_digit s \<and> (s = ''0'' \<or> hd s \<noteq> CHR ''0''))"

definition is_prerelease_id :: "string \<Rightarrow> bool" where
  "is_prerelease_id s =
     (s \<noteq> [] \<and> list_all is_ident_char s \<and> (if list_all is_digit s then is_numeric_id s else True))"

definition is_build_id :: "string \<Rightarrow> bool" where
  "is_build_id s = (s \<noteq> [] \<and> list_all is_ident_char s)"

text \<open>\<^verbatim>\<open>parseNumber\<close>: a number above \<^verbatim>\<open>Number.MAX_SAFE_INTEGER\<close> is refused.\<close>

definition parseNumber :: "string \<Rightarrow> exn + nat" where
  "parseNumber s = (if dec_value s \<le> MAX_SAFE_INTEGER then Inr (dec_value s) else Inl TypeError)"

text \<open>\<^verbatim>\<open>parsePrerelease\<close>: a numeric identifier within the safe range becomes a number.\<close>

definition parsePrerelease :: "string \<Rightarrow> prerelease_id list" where
  "parsePrerelease p =
     map (\<lambda>i. if is_numeric_id i \<and> dec_value i \<le> MAX_SAFE_INTEGER then PNum (dec_value i)
               else PStr i)
       (filter (\<lambda>i. i \<noteq> []) (split_on CHR ''.'' p))"

definition parseBuild :: "string \<Rightarrow> string list" where
  "parseBuild b = filter (\<lambda>i. i \<noteq> []) (split_on CHR ''.'' b)"

text \<open>
  \<^verbatim>\<open>parse(value)\<close>: a \<open>TypeError\<close> for a value that is not a string, for a string longer
  than \<open>MAX_LENGTH\<close>, and for one that, trimmed, does not match
  \<^verbatim>\<open>^v?MAJOR.MINOR.PATCH(-PRERELEASE)?(+BUILD)?$\<close>. A build cannot hold \<^verbatim>\<open>+\<close> and the core
  cannot hold \<^verbatim>\<open>-\<close>, so the build starts after the first \<^verbatim>\<open>+\<close> and the prerelease after
  the first \<^verbatim>\<open>-\<close> before it.
\<close>

definition parse_version_string :: "string \<Rightarrow> exn + semver" where
  "parse_version_string s =
     (if length s > MAX_LENGTH then Inl TypeError
      else
        let t = trim s;
            t1 = (if t \<noteq> [] \<and> hd t = CHR ''v'' then tl t else t);
            (main, build_part) = break_at CHR ''+'' t1;
            (core, pre_part) = break_at CHR ''-'' main
        in
          (case split_on CHR ''.'' core of
             [a, b, c] \<Rightarrow>
               if is_numeric_id a \<and> is_numeric_id b \<and> is_numeric_id c \<and>
                  (case pre_part of
                     None \<Rightarrow> True
                   | Some p \<Rightarrow> list_all is_prerelease_id (split_on CHR ''.'' p)) \<and>
                  (case build_part of
                     None \<Rightarrow> True
                   | Some b \<Rightarrow> list_all is_build_id (split_on CHR ''.'' b))
               then
                 (case parseNumber a of Inl e \<Rightarrow> Inl e | Inr ma \<Rightarrow>
                  case parseNumber b of Inl e \<Rightarrow> Inl e | Inr mi \<Rightarrow>
                  case parseNumber c of Inl e \<Rightarrow> Inl e | Inr pa \<Rightarrow>
                    Inr \<lparr>major = ma, minor = mi, patch = pa,
                         prerelease = (case pre_part of None \<Rightarrow> [] | Some p \<Rightarrow> parsePrerelease p),
                         build = (case build_part of None \<Rightarrow> [] | Some b \<Rightarrow> parseBuild b)\<rparr>)
               else Inl TypeError
           | _ \<Rightarrow> Inl TypeError))"

definition parseSemVer :: "json option \<Rightarrow> exn + semver" where
  "parseSemVer value = (case value of Some (JStr s) \<Rightarrow> parse_version_string s | _ \<Rightarrow> Inl TypeError)"

text \<open>
  \<^verbatim>\<open>increment(version, "patch")\<close>: "If this is not a pre-release version, it will
  increment the patch. If it is a pre-release it will bump up to the same patch version.
  1.2.0-5 patches to 1.2.0; 1.2.0 patches to 1.2.1". The build metadata of the input is
  kept, the prerelease of the result is empty.
\<close>

definition incrementSemVer :: "semver \<Rightarrow> semver" where
  "incrementSemVer version =
     \<lparr>major = major version,
      minor = minor version,
      patch = (if prerelease version = [] then patch version + 1 else patch version),
      prerelease = [],
      build = build version\<rparr>"

text \<open>\<^verbatim>\<open>format(version)\<close>: \<^verbatim>\<open>major.minor.patch\<close>, then \<^verbatim>\<open>-prerelease\<close> and \<^verbatim>\<open>+build\<close> when not empty.\<close>

definition show_prerelease_id :: "prerelease_id \<Rightarrow> string" where
  "show_prerelease_id i = (case i of PNum n \<Rightarrow> show_nat n | PStr s \<Rightarrow> s)"

definition formatSemVer :: "semver \<Rightarrow> string" where
  "formatSemVer version =
     (let primary = show_nat (major version) @ ''.'' @ show_nat (minor version) @ ''.'' @
                    show_nat (patch version);
          pre = join ''.'' (map show_prerelease_id (prerelease version));
          build_text = join ''.'' (build version);
          release = (if pre = [] then primary else primary @ ''-'' @ pre)
      in if build_text = [] then release else release @ ''+'' @ build_text)"

section \<open>Plain paths\<close>


section \<open>utils.ts: bumpVersion\<close>








section \<open>bot2104.ts: portExtToToml, findRepoConfig\<close>

text \<open>The test of the loop in \<open>findRepoConfig\<close>: \<^verbatim>\<open>entry.isFile && entry.name.endsWith(".toml")\<close>.\<close>

definition is_toml_file :: "dirent \<Rightarrow> bool" where
  "is_toml_file entry = (entry_isFile entry \<and> endsWith ''.toml'' (entry_name entry))"

text \<open>
  \<^verbatim>\<open>name.replace(/\.toml$/, "")\<close>: the pattern matches at the end of the name only.
\<close>

definition strip_toml :: "string \<Rightarrow> string" where
  "strip_toml n = (if endsWith ''.toml'' n then take (length n - 5) n else n)"

text \<open>
  The \<^verbatim>\<open>for\<close> loop of \<open>findRepoConfig\<close> over the entries left to visit. The result is
  \<^verbatim>\<open>{ name, content }\<close> or \<^verbatim>\<open>undefined\<close>.
\<close>

fun findRepoConfig_loop ::
  "string \<Rightarrow> dirent list \<Rightarrow> 'x world \<Rightarrow> (exn + (string \<times> string) option) \<times> 'x world"
where
  "findRepoConfig_loop path [] w = (Inr None, w)"
| "findRepoConfig_loop path (entry # rest) w =
     (if is_toml_file entry then
        (case readTextFileSync (path @ ''/grammars/'' @ entry_name entry) w of
           (Inl e, w1) \<Rightarrow> (Inl e, w1)
         | (Inr content, w1) \<Rightarrow> (Inr (Some (strip_toml (entry_name entry), content)), w1))
      else findRepoConfig_loop path rest w)"

definition findRepoConfig ::
  "string \<Rightarrow> 'x world \<Rightarrow> (exn + (string \<times> string) option) \<times> 'x world"
where
  "findRepoConfig path w =
     (if \<not> existsSync (path @ ''/grammars'') w then (Inr None, w)
      else
        (case readDirSync (path @ ''/grammars'') w of
           (Inl e, w1) \<Rightarrow> (Inl e, w1)
         | (Inr entries, w1) \<Rightarrow> findRepoConfig_loop path entries w1))"

text \<open>What \<open>portExtToToml\<close> appends to the serialized manifest for the companion config.\<close>

definition grammar_section :: "(string \<times> string) option \<Rightarrow> string" where
  \<open>grammar_section maybeRepoConfig =
     (case maybeRepoConfig of
        None \<Rightarrow> []
      | Some (name, content) \<Rightarrow>
          ''grammar = "'' @ name @ ''"'' @ ''\<newline>[grammars.'' @ name @ '']\<newline>'' @ content)\<close>

text \<open>
  The three assignments of \<open>portExtToToml\<close> (\<^verbatim>\<open>jsonConfig.id = ...\<close>,
  \<^verbatim>\<open>jsonConfig.version = ...\<close>, \<^verbatim>\<open>jsonConfig.schema_version = 1\<close>) on their own: the object
  that is handed to the serializer. \<open>portExtToToml\<close> below has them inline, as the source
  does.
\<close>

definition ported_config :: "libs \<Rightarrow> json \<Rightarrow> exn + json" where
  "ported_config L jsonConfig =
     (case js_get jsonConfig ''name'' of Inl e \<Rightarrow> Inl e | Inr name \<Rightarrow>
      case kebabCase L name of Inl e \<Rightarrow> Inl e | Inr ident \<Rightarrow>
      case js_set jsonConfig ''id'' (JStr ident) of Inl e \<Rightarrow> Inl e | Inr c1 \<Rightarrow>
      case js_get c1 ''version'' of Inl e \<Rightarrow> Inl e | Inr version \<Rightarrow>
      case parseSemVer version of Inl e \<Rightarrow> Inl e | Inr v \<Rightarrow>
      case js_set c1 ''version'' (JStr (formatSemVer (incrementSemVer v))) of
        Inl e \<Rightarrow> Inl e | Inr c2 \<Rightarrow>
      js_set c2 ''schema_version'' (JNum 1))"

definition portExtToToml :: "libs \<Rightarrow> 'x world \<Rightarrow> (exn + bool) \<times> 'x world" where
  "portExtToToml L w =
     (if existsSync ''extension.toml'' w then (Inr False, w)
      else
        (case readTextFileSync ''extension.json'' w of
           (Inl e, w1) \<Rightarrow> (Inl e, w1)
         | (Inr text, w1) \<Rightarrow>
             (case JSON_parse L text of
                None \<Rightarrow> (Inl SyntaxError, w1)
              | Some jsonConfig \<Rightarrow>
                  (case js_get jsonConfig ''name'' of Inl e \<Rightarrow> (Inl e, w1) | Inr name \<Rightarrow>
                   case kebabCase L name of Inl e \<Rightarrow> (Inl e, w1) | Inr ident \<Rightarrow>
                   case js_set jsonConfig ''id'' (JStr ident) of Inl e \<Rightarrow> (Inl e, w1) | Inr c1 \<Rightarrow>
                   case js_get c1 ''version'' of Inl e \<Rightarrow> (Inl e, w1) | Inr version \<Rightarrow>
                   case parseSemVer version of Inl e \<Rightarrow> (Inl e, w1) | Inr v \<Rightarrow>
                   case js_set c1 ''version'' (JStr (formatSemVer (incrementSemVer v))) of
                     Inl e \<Rightarrow> (Inl e, w1) | Inr c2 \<Rightarrow>
                   case js_set c2 ''schema_version'' (JNum 1) of Inl e \<Rightarrow> (Inl e, w1) | Inr c3 \<Rightarrow>
                   case stringifyToml L c3 of Inl e \<Rightarrow> (Inl e, w1) | Inr tomlConfig \<Rightarrow>
                   case findRepoConfig (cwd w1) w1 of
                     (Inl e, w2) \<Rightarrow> (Inl e, w2)
                   | (Inr maybeRepoConfig, w2) \<Rightarrow>
                       (Inr True,
                        writeTextFileSync ''extension.toml''
                          (tomlConfig @ grammar_section maybeRepoConfig) w2)))))"

text \<open>
  No companion config: no \<^verbatim>\<open>grammars\<close> in the working directory, or a \<^verbatim>\<open>grammars\<close>
  directory that lists no file whose name ends in \<^verbatim>\<open>.toml\<close>.
\<close>

definition no_companion_config :: "'x world \<Rightarrow> bool" where
  "no_companion_config w =
     (\<not> existsSync (cwd w @ ''/grammars'') w \<or>
      (case dirs w (resolve (cwd w) (cwd w @ ''/grammars'')) of
         None \<Rightarrow> False
       | Some entries \<Rightarrow> find is_toml_file entries = None))"

section \<open>utils.ts: getExistingPR, and how the bots use its result\<close>

text \<open>
  The result is a JavaScript value: \<^verbatim>\<open>null\<close> is \<open>Some JNull\<close>, a branch name \<open>Some (JStr b)\<close>.
\<close>

definition pr_list_command :: "string \<Rightarrow> string \<Rightarrow> string \<Rightarrow> string list" where
  "pr_list_command user repo username =
     [''gh'', ''pr'', ''list'', ''--repo'', user @ ''/'' @ repo, ''--author'', username,
      ''--json'', ''number,headRefName'']"

definition getExistingPR ::
  "libs \<Rightarrow> 'x exec \<Rightarrow> string \<Rightarrow> string \<Rightarrow> string \<Rightarrow> 'x world \<Rightarrow> (exn + json option) \<times> 'x world"
where
  "getExistingPR L exec user repo username w =
     (case run exec (pr_list_command user repo username) w of
        (r, w1) \<Rightarrow>
          if \<not> success r then (Inr (Some JNull), w1)
          else
            (case JSON_parse L (stdout r) of
               None \<Rightarrow> (Inl SyntaxError, w1)
             | Some prs \<Rightarrow>
                 (case js_get prs ''length'' of
                    Inl e \<Rightarrow> (Inl e, w1)
                  | Inr len \<Rightarrow>
                      if len = Some (JNum 0) then (Inr (Some JNull), w1)
                      else
                        (case js_first prs of
                           Inl e \<Rightarrow> (Inl e, w1)
                         | Inr None \<Rightarrow> (Inl TypeError, w1)
                         | Inr (Some pr) \<Rightarrow>
                             (case js_get pr ''headRefName'' of
                                Inl e \<Rightarrow> (Inl e, w1)
                              | Inr branch \<Rightarrow> (Inr branch, w1))))))"

text \<open>
  bot2101.ts takes the update path when \<^verbatim>\<open>existingPRBranchName !== null\<close>, bot2104.ts
  when \<^verbatim>\<open>existingPRBranchName\<close> is truthy; otherwise each goes on to patch the clone and
  open a new PR.
\<close>

definition update_path_2101 :: "json option \<Rightarrow> bool" where
  "update_path_2101 existingPRBranchName = (existingPRBranchName \<noteq> Some JNull)"

fun js_truthy :: "json option \<Rightarrow> bool" where
  "js_truthy None = False"
| "js_truthy (Some JNull) = False"
| "js_truthy (Some (JBool b)) = b"
| "js_truthy (Some (JNum n)) = (n \<noteq> 0)"
| "js_truthy (Some (JStr s)) = (s \<noteq> [])"
| "js_truthy (Some (JArr xs)) = True"
| "js_truthy (Some (JObj props)) = True"

definition update_path_2104 :: "json option \<Rightarrow> bool" where
  "update_path_2104 existingPRBranchName = js_truthy existingPRBranchName"

text \<open>The file at an absolute path exists and its text does not hold the old key.\<close>

definition key_free_at :: "string \<Rightarrow> 'x world \<Rightarrow> bool" where
  "key_free_at q w = (case files w q of None \<Rightarrow> False | Some t \<Rightarrow> \<not> str_includes old_key t)"

section \<open>Concrete worlds and commands\<close>

text \<open>
  A work directory with one cloned repository, and two environments: one in which
  every command succeeds, one in which \<^verbatim>\<open>git commit\<close> reports failure (nothing to
  commit) and every other command succeeds. Commands leave the files alone here.
\<close>

definition work_world :: "unit world" where
  "work_world =
     \<lparr>cwd = ''/work'',
      files = Map.empty,
      dirs = [''/work'' \<mapsto> [\<lparr>entry_name = ''repo'', entry_isFile = False\<rparr>],
              ''/work/repo'' \<mapsto> []],
      ran = [],
      outside = ()\<rparr>"

definition exec_ok :: "unit exec" where
  "exec_ok cmd w = (\<lparr>success = True, stdout = [], stderr = []\<rparr>, w)"

definition exec_nothing_to_commit :: "unit exec" where
  "exec_nothing_to_commit cmd w =
     (\<lparr>success = \<not> is_commit cmd, stdout = [], stderr = []\<rparr>, w)"

definition example_pr_args :: pr_args where
  "example_pr_args =
     \<lparr>repoUser = ''owner'', repoName = ''repo'', botUsername = ''bot'',
      commitMsg = ''add extension.toml'', prTitle = ''Add extension.toml'', prBody = ''body''\<rparr>"




text \<open>
  A cloned theme repository: one theme with the old key, one with the old key twice,
  one theme without it, and a file that is no theme.
\<close>

definition theme_world :: "unit world" where
  "theme_world =
     \<lparr>cwd = ''/work'',
      files =
        [''/work/repo/themes/a.json'' \<mapsto> ''{ scrollbar_thumb.background: #fff }'',
         ''/work/repo/themes/b.json'' \<mapsto>
            ''{ scrollbar_thumb.background: 1, x.scrollbar_thumb.background: 2 }'',
         ''/work/repo/themes/c.json'' \<mapsto> ''{ scrollbar.thumb.background: #000 }'',
         ''/work/repo/themes/notes.txt'' \<mapsto> ''scrollbar_thumb.background''],
      dirs =
        [''/work'' \<mapsto> [\<lparr>entry_name = ''repo'', entry_isFile = False\<rparr>],
         ''/work/repo'' \<mapsto> [\<lparr>entry_name = ''themes'', entry_isFile = False\<rparr>],
         ''/work/repo/themes'' \<mapsto>
            [\<lparr>entry_name = ''a.json'', entry_isFile = True\<rparr>,
             \<lparr>entry_name = ''notes.txt'', entry_isFile = True\<rparr>,
             \<lparr>entry_name = ''b.json'', entry_isFile = True\<rparr>,
             \<lparr>entry_name = ''c.json'', entry_isFile = True\<rparr>]],
      ran = [],
      outside = ()\<rparr>"

text \<open>
  The legacy manifest of the port, the object it parses to, that object after the port,
  and the text the TOML serializer gives for it: one \<^verbatim>\<open>key = value\<close> line per property,
  each ended by a line feed.
\<close>

definition legacy_manifest :: string where
  \<open>legacy_manifest = ''{"name": "My Cool Ext", "version": "1.0.0"}''\<close>

definition legacy_object :: json where
  "legacy_object = JObj [(''name'', JStr ''My Cool Ext''), (''version'', JStr ''1.0.0'')]"

definition ported_object :: json where
  "ported_object =
     JObj [(''name'', JStr ''My Cool Ext''), (''version'', JStr ''1.0.1''),
           (''id'', JStr ''my-cool-ext''), (''schema_version'', JNum 1)]"

definition ported_toml :: string where
  \<open>ported_toml =
     ''name = "My Cool Ext"\<newline>version = "1.0.1"\<newline>id = "my-cool-ext"\<newline>schema_version = 1\<newline>''\<close>

definition rust_config :: string where
  \<open>rust_config = ''path = "grammars/rust"''\<close>

text \<open>Manifests for the version bump, in both formats, and the objects they parse to.\<close>

definition toml_manifest :: string where
  \<open>toml_manifest =
     ''id = "x"\<newline>name = "X"\<newline>version = "1.2.3"\<newline>schema_version = 1\<newline>''\<close>

definition json_manifest :: string where
  \<open>json_manifest = ''{"name": "X", "version": "0.9.10"}''\<close>

definition prerelease_manifest :: string where
  \<open>prerelease_manifest = ''name = "X"\<newline>version = "1.2.3-beta.1+build.5"\<newline>''\<close>

definition compact_manifest :: string where
  \<open>compact_manifest = ''{"name":"X","version":"1.2.3"}''\<close>

text \<open>
  Library functions for the examples: parsers that know the texts above (and throw on any
  other), a serializer that knows the ported object, a \<open>kebabCase\<close> that knows its name.
\<close>

definition example_parse :: "string \<Rightarrow> json option" where
  "example_parse text =
     (if text = legacy_manifest then Some legacy_object
      else if text = toml_manifest then
        Some (JObj [(''id'', JStr ''x''), (''name'', JStr ''X''), (''version'', JStr ''1.2.3''),
                    (''schema_version'', JNum 1)])
      else if text = json_manifest then
        Some (JObj [(''name'', JStr ''X''), (''version'', JStr ''0.9.10'')])
      else if text = prerelease_manifest then
        Some (JObj [(''name'', JStr ''X''), (''version'', JStr ''1.2.3-beta.1+build.5'')])
      else if text = compact_manifest then
        Some (JObj [(''name'', JStr ''X''), (''version'', JStr ''1.2.3'')])
      else if text = ''[]'' then Some (JArr [])
      else None)"

definition example_libs :: libs where
  "example_libs =
     \<lparr>JSON_parse = example_parse,
      parseToml = example_parse,
      stringifyToml = (\<lambda>v. if v = ported_object then Inr ported_toml else Inl TypeError),
      kebabCase = (\<lambda>v. if v = Some (JStr ''My Cool Ext'') then Inr ''my-cool-ext''
                         else Inl TypeError)\<rparr>"

text \<open>Library functions that throw whatever they are given.\<close>

definition failing_libs :: libs where
  "failing_libs =
     \<lparr>JSON_parse = (\<lambda>text. None),
      parseToml = (\<lambda>text. None),
      stringifyToml = (\<lambda>v. Inl TypeError),
      kebabCase = (\<lambda>v. Inl TypeError)\<rparr>"

text \<open>
  Worlds for the examples, given by their files and directories: \<open>in_repo\<close> with the clone
  as working directory (as \<open>portExtToToml\<close> is called), \<open>in_work\<close> with the work directory
  (as \<open>bumpVersion\<close> is).
\<close>

definition in_repo :: "(string \<times> string) list \<Rightarrow> (string \<times> dirent list) list \<Rightarrow> unit world" where
  "in_repo fs ds = \<lparr>cwd = ''/work/repo'', files = map_of fs, dirs = map_of ds, ran = [], outside = ()\<rparr>"


definition legacy_world :: "unit world" where
  "legacy_world =
     in_repo [(''/work/repo/extension.json'', legacy_manifest)]
       [(''/work'', [\<lparr>entry_name = ''repo'', entry_isFile = False\<rparr>]),
        (''/work/repo'', [\<lparr>entry_name = ''extension.json'', entry_isFile = True\<rparr>])]"

text \<open>
  The same with a \<^verbatim>\<open>grammars\<close> directory that lists, in this order, a directory whose name
  ends in \<^verbatim>\<open>.toml\<close>, a file that is no TOML file, \<^verbatim>\<open>rust.toml\<close> and \<^verbatim>\<open>go.toml\<close>.
\<close>

definition grammar_world :: "unit world" where
  \<open>grammar_world =
     in_repo
       [(''/work/repo/extension.json'', legacy_manifest),
        (''/work/repo/grammars/README.md'', ''companion configs''),
        (''/work/repo/grammars/rust.toml'', rust_config),
        (''/work/repo/grammars/go.toml'', ''path = "grammars/go"'')]
       [(''/work'', [\<lparr>entry_name = ''repo'', entry_isFile = False\<rparr>]),
        (''/work/repo'',
           [\<lparr>entry_name = ''extension.json'', entry_isFile = True\<rparr>,
            \<lparr>entry_name = ''grammars'', entry_isFile = False\<rparr>]),
        (''/work/repo/grammars'',
           [\<lparr>entry_name = ''queries.toml'', entry_isFile = False\<rparr>,
            \<lparr>entry_name = ''README.md'', entry_isFile = True\<rparr>,
            \<lparr>entry_name = ''rust.toml'', entry_isFile = True\<rparr>,
            \<lparr>entry_name = ''go.toml'', entry_isFile = True\<rparr>]),
        (''/work/repo/grammars/queries.toml'', [])]\<close>

text \<open>A clone that has the target manifest already and no legacy manifest.\<close>

definition ported_world :: "unit world" where
  "ported_world =
     in_repo [(''/work/repo/extension.toml'', ported_toml)]
       [(''/work'', [\<lparr>entry_name = ''repo'', entry_isFile = False\<rparr>]),
        (''/work/repo'', [\<lparr>entry_name = ''extension.toml'', entry_isFile = True\<rparr>])]"


text \<open>An environment in which \<^verbatim>\<open>gh pr list\<close> fails, and one in which it lists no PR.\<close>

definition exec_failing :: "unit exec" where
  "exec_failing cmd w = (\<lparr>success = False, stdout = [], stderr = ''HTTP 502''\<rparr>, w)"

definition exec_no_pr :: "unit exec" where
  "exec_no_pr cmd w = (\<lparr>success = True, stdout = ''[]'', stderr = []\<rparr>, w)"

section \<open>Properties of retry\<close>

lemma retry_step_no:
  assumes "fst (fn s) = Inl e" and "\<not> answer_after fn confirm s"
  shows "retry (counting fn) (uncounted confirm) (n, s) = Some (Suc n, attempt fn confirm s)"
  using assms
  by (subst retry.simps)
     (auto simp: counting_def uncounted_def attempt_def answer_after_def
           split: prod.splits sum.splits)

lemma retry_step_yes:
  assumes "fst (fn s) = Inl e" and "answer_after fn confirm s"
  shows "retry (counting fn) (uncounted confirm) (n, s) =
         retry (counting fn) (uncounted confirm) (Suc n, attempt fn confirm s)"
  using assms
  by (subst retry.simps)
     (auto simp: counting_def uncounted_def attempt_def answer_after_def
           split: prod.splits sum.splits)

lemma retry_counts:
  assumes "always_throws fn"
    and "\<forall>k<n. answer_after fn confirm ((attempt fn confirm ^^ k) s)"
    and "\<not> answer_after fn confirm ((attempt fn confirm ^^ n) s)"
  shows "retry (counting fn) (uncounted confirm) (c, s) =
         Some (c + Suc n, (attempt fn confirm ^^ Suc n) s)"
  using assms(2,3)
proof (induction n arbitrary: c s)
  case 0
  from assms(1) obtain e where "fst (fn s) = Inl e"
    by (auto simp: always_throws_def)
  with 0 show ?case
    by (simp add: retry_step_no)
next
  case (Suc n)
  from assms(1) obtain e where e: "fst (fn s) = Inl e"
    by (auto simp: always_throws_def)
  from Suc.prems(1) have yes: "answer_after fn confirm s"
    by (auto dest: spec [of _ 0])
  have later: "\<forall>k<n. answer_after fn confirm ((attempt fn confirm ^^ k) (attempt fn confirm s))"
  proof (intro allI impI)
    fix k assume "k < n"
    then have "Suc k < Suc n" by simp
    with Suc.prems(1) have "answer_after fn confirm ((attempt fn confirm ^^ Suc k) s)"
      by blast
    then show "answer_after fn confirm ((attempt fn confirm ^^ k) (attempt fn confirm s))"
      by (simp add: funpow_swap1)
  qed
  have last: "\<not> answer_after fn confirm ((attempt fn confirm ^^ n) (attempt fn confirm s))"
    using Suc.prems(2) by (simp add: funpow_swap1)
  have "retry (counting fn) (uncounted confirm) (c, s) =
        retry (counting fn) (uncounted confirm) (Suc c, attempt fn confirm s)"
    using e yes by (rule retry_step_yes)
  also have "\<dots> = Some (Suc c + Suc n, (attempt fn confirm ^^ Suc n) (attempt fn confirm s))"
    using later last by (rule Suc.IH)
  finally show ?case
    by (simp add: funpow_swap1)
qed

text \<open>
  C3. A pipeline that always throws, run under \<open>retry\<close> with an operator who answers
  "yes" to the first \<open>n\<close> prompts and "no" to the next one, is invoked exactly \<open>n + 1\<close>
  times, and \<open>retry\<close> returns normally (the result is \<open>Some\<close>, and \<open>retry\<close> has no
  throwing path). With \<open>n = 0\<close>, a "no" at the first prompt: exactly one invocation.
\<close>

theorem retry_invokes_while_yes:
  assumes "always_throws fn"
    and "\<forall>k<n. answer_after fn confirm ((attempt fn confirm ^^ k) s)"
    and "\<not> answer_after fn confirm ((attempt fn confirm ^^ n) s)"
  shows "retry (counting fn) (uncounted confirm) (0, s) =
         Some (Suc n, (attempt fn confirm ^^ Suc n) s)"
  using retry_counts [OF assms, of 0] by simp

theorem retry_invokes_while_yes_witness:
  "always_throws failing_pipeline \<and>
   answer_after failing_pipeline scripted_confirm [True, True, False, True] \<and>
   answer_after failing_pipeline scripted_confirm [True, False, True] \<and>
   \<not> answer_after failing_pipeline scripted_confirm [False, True] \<and>
   retry (counting failing_pipeline) (uncounted scripted_confirm) (0, [True, True, False, True])
     = Some (3, [True])"
  using retry_invokes_while_yes
    [of failing_pipeline 2 scripted_confirm "[True, True, False, True]"]
  by (simp add: always_throws_def failing_pipeline_def scripted_confirm_def attempt_def
      answer_after_def numeral_2_eq_2 less_Suc_eq)

section \<open>Properties of the PR publisher\<close>

lemma run_ran: "run exec cmd w = (r, w1) \<Longrightarrow> ran w1 = ran w @ [(cmd, r)]"
  by (auto simp: run_def split: prod.splits)

lemma run_cwd: "run exec cmd w = (r, w1) \<Longrightarrow> cwd w1 = cwd w"
  by (auto simp: run_def split: prod.splits)

lemma chdir_ran: "chdir d w = (x, w1) \<Longrightarrow> ran w1 = ran w"
  by (auto simp: chdir_def split: option.splits)

lemma ran_since_append: "ran w' = ran w @ L \<Longrightarrow> ran_since w w' = L"
  by (simp add: ran_since_def)

text \<open>
  What a scope under \<open>using_switchDirTemp\<close> appends to the transcript is what its body
  appends: the switch and the disposal run no command.
\<close>

lemma using_ran:
  assumes "using_switchDirTemp dir body w = (r, w')"
    and "\<And>w0 r0 w1. body w0 = (r0, w1) \<Longrightarrow> \<exists>L. ran w1 = ran w0 @ L \<and> P L"
    and "P []"
  shows "\<exists>L. ran w' = ran w @ L \<and> P L"
proof (cases "switchDirTemp dir w")
  case (Pair x w1)
  from Pair have r1: "ran w1 = ran w"
    by (auto simp: switchDirTemp_def Let_def split: prod.splits sum.splits dest: chdir_ran)
  show ?thesis
  proof (cases x)
    case (Inl e)
    with Pair assms(1) have "w' = w1"
      by (simp add: using_switchDirTemp_def)
    with r1 assms(3) show ?thesis by simp
  next
    case (Inr orig)
    obtain r0 w2 where b: "body w1 = (r0, w2)" by (cases "body w1")
    obtain d w3 where d: "dispose orig w2 = (d, w3)" by (cases "dispose orig w2")
    from d have r3: "ran w3 = ran w2" by (auto simp: dispose_def dest: chdir_ran)
    from assms(1) Pair Inr b d have "w' = w3"
      by (auto simp: using_switchDirTemp_def split: sum.splits)
    with assms(2) [OF b] r1 r3 show ?thesis by simp
  qed
qed

lemma openPR_steps_log:
  assumes "openPR_steps exec branchName a w0 = (r0, wn)"
  shows "\<exists>L. ran wn = ran w0 @ L \<and> (commit_failed L \<longrightarrow> \<not> pushed_or_created L)"
proof -
  let ?c6 = "[''git'', ''commit'', ''-m'', commitMsg a]"
  obtain r1 w1 where 1: "run exec [''git'', ''diff''] w0 = (r1, w1)"
    by (cases "run exec [''git'', ''diff''] w0")
  obtain c2 r2 w2 where 2: "run exec c2 w1 = (r2, w2)"
    and c2: "c2 = [''gh'', ''repo'', ''fork'', repoUser a @ ''/'' @ repoName a, ''--remote=false'']"
    by (cases "run exec [''gh'', ''repo'', ''fork'', repoUser a @ ''/'' @ repoName a,
                         ''--remote=false''] w1") blast
  obtain c3 r3 w3 where 3: "run exec c3 w2 = (r3, w3)"
    and c3: "c3 = [''git'', ''remote'', ''add'', ''fork'',
                   ''https://github.com/'' @ botUsername a @ ''/'' @ repoName a @ ''.git'']"
    by (cases "run exec [''git'', ''remote'', ''add'', ''fork'',
                   ''https://github.com/'' @ botUsername a @ ''/'' @ repoName a @ ''.git''] w2")
       blast
  obtain r4 w4 where 4: "run exec [''git'', ''checkout'', ''-b'', branchName] w3 = (r4, w4)"
    by (cases "run exec [''git'', ''checkout'', ''-b'', branchName] w3")
  obtain r5 w5 where 5: "run exec [''git'', ''add'', ''.''] w4 = (r5, w5)"
    by (cases "run exec [''git'', ''add'', ''.''] w4")
  obtain r6 w6 where 6: "run exec ?c6 w5 = (r6, w6)"
    by (cases "run exec ?c6 w5")
  obtain r7 w7 where 7: "run exec [''git'', ''push'', ''-u'', ''fork'', branchName] w6 = (r7, w7)"
    by (cases "run exec [''git'', ''push'', ''-u'', ''fork'', branchName] w6")
  obtain c8 r8 w8 where 8: "run exec c8 w7 = (r8, w8)"
    and c8: "c8 = [''gh'', ''pr'', ''create'', ''--title'', prTitle a, ''--body'', prBody a,
                   ''--repo'', repoUser a @ ''/'' @ repoName a]"
    by (cases "run exec [''gh'', ''pr'', ''create'', ''--title'', prTitle a, ''--body'', prBody a,
                   ''--repo'', repoUser a @ ''/'' @ repoName a] w7") blast
  note logs = run_ran [OF 1] run_ran [OF 2] run_ran [OF 3] run_ran [OF 4]
    run_ran [OF 5] run_ran [OF 6] run_ran [OF 7] run_ran [OF 8]
  show ?thesis
  proof (cases "success r6")
    case False
    with assms 1 2 3 4 5 6 c2 c3 have "wn = w6"
      by (simp add: openPR_steps_def)
    with logs have "ran wn = ran w0 @ [([''git'', ''diff''], r1), (c2, r2), (c3, r3),
        ([''git'', ''checkout'', ''-b'', branchName], r4), ([''git'', ''add'', ''.''], r5),
        (?c6, r6)]"
      by simp
    then show ?thesis
      by (simp add: c2 c3 pushed_or_created_def is_push_def is_pr_create_def)
  next
    case True
    with assms 1 2 3 4 5 6 7 8 c2 c3 c8 have "wn = w8"
      by (simp add: openPR_steps_def)
    with logs have "ran wn = ran w0 @ [([''git'', ''diff''], r1), (c2, r2), (c3, r3),
        ([''git'', ''checkout'', ''-b'', branchName], r4), ([''git'', ''add'', ''.''], r5),
        (?c6, r6), ([''git'', ''push'', ''-u'', ''fork'', branchName], r7), (c8, r8)]"
      by simp
    with True show ?thesis
      by (simp add: c2 c3 c8 commit_failed_def is_commit_def)
  qed
qed

lemma updatePr_steps_log:
  assumes "updatePr_steps exec branchName w0 = (r0, wn)"
  shows "\<exists>L. ran wn = ran w0 @ L \<and> (commit_failed L \<longrightarrow> \<not> pushed_or_created L)"
proof -
  let ?c3 = "[''git'', ''commit'', ''-m'',
              ''rename scrollbar_thumb.background to scrollbar.thumb.background'']"
  obtain r1 w1 where 1: "run exec [''git'', ''diff''] w0 = (r1, w1)"
    by (cases "run exec [''git'', ''diff''] w0")
  obtain r2 w2 where 2: "run exec [''git'', ''add'', ''.''] w1 = (r2, w2)"
    by (cases "run exec [''git'', ''add'', ''.''] w1")
  obtain r3 w3 where 3: "run exec ?c3 w2 = (r3, w3)"
    by (cases "run exec ?c3 w2")
  obtain r4 w4 where 4: "run exec [''git'', ''push'', ''-u'', ''fork'', branchName] w3 = (r4, w4)"
    by (cases "run exec [''git'', ''push'', ''-u'', ''fork'', branchName] w3")
  note logs = run_ran [OF 1] run_ran [OF 2] run_ran [OF 3] run_ran [OF 4]
  show ?thesis
  proof (cases "success r3")
    case False
    with assms 1 2 3 have "wn = w3"
      by (simp add: updatePr_steps_def)
    with logs have "ran wn = ran w0 @ [([''git'', ''diff''], r1), ([''git'', ''add'', ''.''], r2),
        (?c3, r3)]"
      by simp
    then show ?thesis
      by (simp add: pushed_or_created_def is_push_def is_pr_create_def)
  next
    case True
    with assms 1 2 3 4 have "wn = w4"
      by (simp add: updatePr_steps_def)
    with logs have "ran wn = ran w0 @ [([''git'', ''diff''], r1), ([''git'', ''add'', ''.''], r2),
        (?c3, r3), ([''git'', ''push'', ''-u'', ''fork'', branchName], r4)]"
      by simp
    with True show ?thesis
      by (simp add: commit_failed_def is_commit_def)
  qed
qed

lemma openPR_log:
  assumes "openPR exec now a w = (r, w')"
  shows "commit_failed (ran_since w w') \<longrightarrow> \<not> pushed_or_created (ran_since w w')"
proof -
  have "\<exists>L. ran w' = ran w @ L \<and> (commit_failed L \<longrightarrow> \<not> pushed_or_created L)"
    using assms unfolding openPR_def Let_def
    by (rule using_ran) (auto dest: openPR_steps_log simp: commit_failed_def)
  then show ?thesis
    by (auto simp: ran_since_append)
qed

lemma updatePr_log:
  assumes "updatePr exec user name branchName w = (r, w')"
  shows "commit_failed (ran_since w w') \<longrightarrow> \<not> pushed_or_created (ran_since w w')"
proof -
  have "\<exists>L. ran w' = ran w @ L \<and> (commit_failed L \<longrightarrow> \<not> pushed_or_created L)"
    using assms unfolding updatePr_def
    by (rule using_ran) (auto dest: updatePr_steps_log simp: commit_failed_def)
  then show ?thesis
    by (auto simp: ran_since_append)
qed

text \<open>
  C2. In every run of \<open>openPR\<close> and of \<open>updatePr\<close>, from any world and with any behaviour
  of the external commands: if the transcript of the run holds a \<^verbatim>\<open>git commit\<close> that
  reported failure, it holds no \<^verbatim>\<open>git push\<close> and no \<^verbatim>\<open>gh pr create\<close>.
\<close>

theorem failed_commit_no_push_no_pr:
  "(openPR exec now a w = (r, w') \<longrightarrow>
      commit_failed (ran_since w w') \<longrightarrow> \<not> pushed_or_created (ran_since w w')) \<and>
   (updatePr exec user name branchName w = (r2, w2') \<longrightarrow>
      commit_failed (ran_since w w2') \<longrightarrow> \<not> pushed_or_created (ran_since w w2'))"
  using openPR_log updatePr_log by blast

theorem failed_commit_no_push_no_pr_witness:
  "commit_failed
     (ran_since work_world (snd (openPR exec_nothing_to_commit 1700000000000 example_pr_args work_world))) \<and>
   \<not> pushed_or_created
     (ran_since work_world (snd (openPR exec_nothing_to_commit 1700000000000 example_pr_args work_world))) \<and>
   fst (openPR exec_nothing_to_commit 1700000000000 example_pr_args work_world) = Inr () \<and>
   commit_failed
     (ran_since work_world (snd (updatePr exec_nothing_to_commit ''owner'' ''repo'' ''branch'' work_world))) \<and>
   \<not> pushed_or_created
     (ran_since work_world (snd (updatePr exec_nothing_to_commit ''owner'' ''repo'' ''branch'' work_world))) \<and>
   fst (updatePr exec_nothing_to_commit ''owner'' ''repo'' ''branch'' work_world) = Inr ()"
  using failed_commit_no_push_no_pr
    [of exec_nothing_to_commit 1700000000000 example_pr_args work_world
        "fst (openPR exec_nothing_to_commit 1700000000000 example_pr_args work_world)"
        "snd (openPR exec_nothing_to_commit 1700000000000 example_pr_args work_world)"
        "''owner''" "''repo''" "''branch''"
        "fst (updatePr exec_nothing_to_commit ''owner'' ''repo'' ''branch'' work_world)"
        "snd (updatePr exec_nothing_to_commit ''owner'' ''repo'' ''branch'' work_world)"]
  by (simp add: openPR_def openPR_steps_def updatePr_def updatePr_steps_def
      using_switchDirTemp_def switchDirTemp_def dispose_def chdir_def resolve_def run_def
      exec_nothing_to_commit_def work_world_def example_pr_args_def
      ran_since_def commit_failed_def pushed_or_created_def is_commit_def is_push_def
      is_pr_create_def Let_def)

section \<open>Properties of the scoped directory switch\<close>

lemma resolve_absolute: "is_absolute p \<Longrightarrow> resolve base p = p"
  by (simp add: resolve_def is_absolute_def)

lemma using_switchDirTemp_fails:
  assumes "dirs w (resolve (cwd w) dir) = None"
  shows "\<exists>e. using_switchDirTemp dir body w = (Inl e, w)"
  using assms by (simp add: using_switchDirTemp_def switchDirTemp_def chdir_def)

lemma using_switchDirTemp_runs:
  assumes "is_absolute (cwd w)"
    and "dirs w (resolve (cwd w) dir) = Some es"
    and "body (w\<lparr>cwd := resolve (cwd w) dir\<rparr>) = (r, w2)"
    and "dirs w2 (cwd w) = Some es'"
  shows "using_switchDirTemp dir body w = (r, w2\<lparr>cwd := cwd w\<rparr>)"
  using assms
  by (simp add: using_switchDirTemp_def switchDirTemp_def chdir_def dispose_def resolve_absolute)

lemma using_switchDirTemp_Inr:
  assumes "is_absolute (cwd w)"
    and "using_switchDirTemp dir body w = (Inr v, w')"
  shows "\<exists>es w2 es'. dirs w (resolve (cwd w) dir) = Some es \<and>
           body (w\<lparr>cwd := resolve (cwd w) dir\<rparr>) = (Inr v, w2) \<and>
           dirs w2 (cwd w) = Some es' \<and> w' = w2\<lparr>cwd := cwd w\<rparr>"
proof (cases "dirs w (resolve (cwd w) dir)")
  case None
  from using_switchDirTemp_fails [OF None, of body] assms(2) show ?thesis by auto
next
  case (Some es)
  obtain r w2 where b: "body (w\<lparr>cwd := resolve (cwd w) dir\<rparr>) = (r, w2)"
    by (cases "body (w\<lparr>cwd := resolve (cwd w) dir\<rparr>)")
  show ?thesis
  proof (cases "dirs w2 (cwd w)")
    case None
    with assms Some b have False
      by (auto simp: using_switchDirTemp_def switchDirTemp_def chdir_def dispose_def
          resolve_absolute split: sum.splits)
    then show ?thesis ..
  next
    case (Some es')
    have "using_switchDirTemp dir body w = (r, w2\<lparr>cwd := cwd w\<rparr>)"
      using assms(1) \<open>dirs w (resolve (cwd w) dir) = Some es\<close> b Some
      by (rule using_switchDirTemp_runs)
    with assms(2) b Some \<open>dirs w (resolve (cwd w) dir) = Some es\<close>
    show ?thesis by auto
  qed
qed




section \<open>Properties of the attribute rename\<close>

lemma replaceAll_Nil: "x \<noteq> [] \<Longrightarrow> replaceAll x y [] = []"
  by (subst replaceAll.simps) simp

lemma replaceAll_match:
  "x \<noteq> [] \<Longrightarrow> s \<noteq> [] \<Longrightarrow> prefix x s \<Longrightarrow> replaceAll x y s = y @ replaceAll x y (drop (length x) s)"
  by (subst replaceAll.simps) simp

lemma replaceAll_skip:
  "x \<noteq> [] \<Longrightarrow> \<not> prefix x (c # cs) \<Longrightarrow> replaceAll x y (c # cs) = c # replaceAll x y cs"
  by (subst replaceAll.simps) simp

lemma old_key_suffix_s:
  assumes "suffix q old_key" and "q \<noteq> []" and "hd q = CHR ''s''"
  shows "q = old_key"
proof (rule ccontr)
  assume "q \<noteq> old_key"
  with assms(1) have "suffix q (tl old_key)"
    by (simp add: old_key_def suffix_Cons)
  then have "set q \<subseteq> set (tl old_key)"
    by (rule set_mono_suffix)
  moreover from assms(2) have "hd q \<in> set q" by simp
  ultimately have "CHR ''s'' \<in> set (tl old_key)"
    using assms(3) by auto
  then show False
    by (simp add: old_key_def)
qed

lemma prefix_old_new: "\<not> prefix old_key (new_key @ rest)"
  by (simp add: old_key_def new_key_def)

lemma prefix_replaceAll:
  "suffix q old_key \<Longrightarrow> q \<noteq> [] \<Longrightarrow> prefix q (replaceAll old_key new_key t) \<Longrightarrow> prefix q t"
proof (induction old_key new_key t arbitrary: q rule: replaceAll.induct)
  case (1 s)
  have ne: "old_key \<noteq> []" by (simp add: old_key_def)
  show ?case
  proof (cases s)
    case Nil
    with 1 ne show ?thesis by (simp add: replaceAll_Nil)
  next
    case (Cons c cs)
    show ?thesis
    proof (cases "prefix old_key s")
      case True
      with Cons ne have out: "replaceAll old_key new_key s = new_key @ replaceAll old_key new_key (drop (length old_key) s)"
        by (simp add: replaceAll_match)
      with "1.prems" have "hd q = CHR ''s''"
        by (cases q) (auto simp: new_key_def)
      with "1.prems" have "q = old_key" by (simp add: old_key_suffix_s)
      with "1.prems"(3) out prefix_old_new show ?thesis by simp
    next
      case np: False
      with Cons ne have out: "replaceAll old_key new_key s = c # replaceAll old_key new_key cs"
        by (simp add: replaceAll_skip)
      from "1.prems"(2) obtain d q' where q: "q = d # q'" by (cases q) auto
      with "1.prems"(3) out have d: "d = c" and p: "prefix q' (replaceAll old_key new_key cs)"
        by auto
      from q "1.prems"(1) have sq: "suffix q' old_key" by (auto dest: suffix_ConsD)
      show ?thesis
      proof (cases "q' = []")
        case True
        with q d Cons show ?thesis by simp
      next
        case False
        have "prefix q' (tl s)"
          using "1.hyps"(2) [OF ne _ np sq False] p Cons by simp
        with q d Cons show ?thesis by simp
      qed
    qed
  qed
qed

lemma includes_new_key: "str_includes old_key (new_key @ rest) = str_includes old_key rest"
  by (simp add: old_key_def new_key_def)

lemma replaceAll_no_old_key: "\<not> str_includes old_key (replaceAll old_key new_key t)"
proof (induction old_key new_key t rule: replaceAll.induct)
  case (1 s)
  have ne: "old_key \<noteq> []" by (simp add: old_key_def)
  show ?case
  proof (cases s)
    case Nil
    with ne show ?thesis by (simp add: replaceAll_Nil)
  next
    case (Cons c cs)
    show ?thesis
    proof (cases "prefix old_key s")
      case True
      with Cons ne have out: "replaceAll old_key new_key s = new_key @ replaceAll old_key new_key (drop (length old_key) s)"
        by (simp add: replaceAll_match)
      from "1.hyps"(1) [OF ne _ True] Cons
      have "\<not> str_includes old_key (replaceAll old_key new_key (drop (length old_key) s))" by simp
      with out show ?thesis by (simp add: includes_new_key)
    next
      case False
      with Cons ne have out: "replaceAll old_key new_key s = c # replaceAll old_key new_key cs"
        by (simp add: replaceAll_skip)
      from "1.hyps"(2) [OF ne _ False] Cons
      have ih: "\<not> str_includes old_key (replaceAll old_key new_key cs)" by simp
      have "\<not> prefix old_key (replaceAll old_key new_key s)"
      proof
        assume "prefix old_key (replaceAll old_key new_key s)"
        with suffix_order.refl ne have "prefix old_key s"
          by (rule prefix_replaceAll)
        with False show False ..
      qed
      with out ih show ?thesis by simp
    qed
  qed
qed


lemma patch_themes_frame:
  "patch_themes ps ch w = (r, w') \<Longrightarrow>
     cwd w' = cwd w \<and> dirs w' = dirs w"
  by (induction ps ch w rule: patch_themes.induct)
     (auto simp: readTextFileSync_def writeTextFileSync_def split: option.splits if_splits)

lemma patch_themes_keeps_key_free:
  "patch_themes ps ch w = (Inr ch', w') \<Longrightarrow> key_free_at q w \<Longrightarrow> key_free_at q w'"
proof (induction ps ch w rule: patch_themes.induct)
  case (1 changes w)
  then show ?case by simp
next
  case (2 themePath rest changes w)
  obtain theme where rd: "files w (resolve (cwd w) themePath) = Some theme"
    using "2.prems"(1) by (auto simp: readTextFileSync_def split: option.splits)
  show ?case
  proof (cases "str_includes old_key theme")
    case False
    with rd "2.prems"(1) have "patch_themes rest changes w = (Inr ch', w')"
      by (simp add: readTextFileSync_def)
    with "2.IH"(1) rd False "2.prems"(2) show ?thesis
      by (simp add: readTextFileSync_def)
  next
    case True
    let ?w1 = "writeTextFileSync themePath (replaceAll old_key new_key theme) w"
    from True rd "2.prems"(1) have rest: "patch_themes rest True ?w1 = (Inr ch', w')"
      by (simp add: readTextFileSync_def)
    from "2.prems"(2) have "key_free_at q ?w1"
      by (simp add: key_free_at_def writeTextFileSync_def replaceAll_no_old_key)
    with "2.IH"(2) rd True rest show ?thesis
      by (simp add: readTextFileSync_def)
  qed
qed

lemma patch_themes_all_key_free:
  "patch_themes ps ch w = (Inr ch', w') \<Longrightarrow> p \<in> set ps \<Longrightarrow> key_free_at (resolve (cwd w) p) w'"
proof (induction ps ch w rule: patch_themes.induct)
  case (1 changes w)
  then show ?case by simp
next
  case (2 themePath rest changes w)
  obtain theme where rd: "files w (resolve (cwd w) themePath) = Some theme"
    using "2.prems"(1) by (auto simp: readTextFileSync_def split: option.splits)
  show ?case
  proof (cases "str_includes old_key theme")
    case False
    with rd "2.prems"(1) have rest: "patch_themes rest changes w = (Inr ch', w')"
      by (simp add: readTextFileSync_def)
    show ?thesis
    proof (cases "p = themePath")
      case True
      from rd False have "key_free_at (resolve (cwd w) themePath) w"
        by (simp add: key_free_at_def)
      with rest True show ?thesis by (simp add: patch_themes_keeps_key_free)
    next
      case np: False
      with "2.prems"(2) have "p \<in> set rest" by simp
      with "2.IH"(1) rd False rest show ?thesis
        by (simp add: readTextFileSync_def)
    qed
  next
    case True
    let ?w1 = "writeTextFileSync themePath (replaceAll old_key new_key theme) w"
    from True rd "2.prems"(1) have rest: "patch_themes rest True ?w1 = (Inr ch', w')"
      by (simp add: readTextFileSync_def)
    have c: "cwd ?w1 = cwd w" by (simp add: writeTextFileSync_def)
    show ?thesis
    proof (cases "p = themePath")
      case pt: True
      have "key_free_at (resolve (cwd w) themePath) ?w1"
        by (simp add: key_free_at_def writeTextFileSync_def replaceAll_no_old_key)
      with rest pt show ?thesis by (simp add: patch_themes_keeps_key_free)
    next
      case np: False
      with "2.prems"(2) have "p \<in> set rest" by simp
      with "2.IH"(2) rd True rest c show ?thesis
        by (simp add: readTextFileSync_def)
    qed
  qed
qed

lemma patch_themes_nothing_to_do:
  "\<forall>p\<in>set ps. key_free_at (resolve (cwd w) p) w \<Longrightarrow> patch_themes ps ch w = (Inr ch, w)"
  by (induction ps) (auto simp: readTextFileSync_def key_free_at_def split: option.splits)


lemma patchScrollbarThumbBg_steps_Inr:
  assumes "patchScrollbarThumbBg_steps w0 = (Inr b, w2)"
  shows "\<exists>entries. dirs w0 (resolve (cwd w0) ''themes'') = Some entries \<and>
           patch_themes (map (\<lambda>entry. ''themes/'' @ entry_name entry)
                          (filter (\<lambda>entry. endsWith ''.json'' (entry_name entry)) entries))
             False w0 = (Inr b, w2)"
  using assms
  by (auto simp: patchScrollbarThumbBg_steps_def findThemes_def readDirSync_def
      split: option.splits sum.splits prod.splits if_splits)

lemma patchScrollbarThumbBg_steps_clean:
  assumes "dirs w0 (resolve (cwd w0) ''themes'') = Some entries"
    and "patch_themes (map (\<lambda>entry. ''themes/'' @ entry_name entry)
                          (filter (\<lambda>entry. endsWith ''.json'' (entry_name entry)) entries))
             False w0 = (Inr False, w0)"
  shows "patchScrollbarThumbBg_steps w0 = (Inr False, w0)"
  using assms
  by (simp add: patchScrollbarThumbBg_steps_def findThemes_def readDirSync_def)

text \<open>
  C7. From a world whose working directory is an absolute path: when
  \<open>patchScrollbarThumbBg\<close> returns \<^verbatim>\<open>true\<close>, a second application in the world it left
  returns \<^verbatim>\<open>false\<close> and leaves that world as it is: every file keeps its content.
\<close>

theorem patchScrollbarThumbBg_idempotent:
  assumes "is_absolute (cwd w)"
    and "patchScrollbarThumbBg repo w = (Inr True, w')"
  shows "patchScrollbarThumbBg repo w' = (Inr False, w')"
proof -
  let ?T = "resolve (cwd w) repo"
  let ?w1 = "w\<lparr>cwd := ?T\<rparr>"
  from assms(2) have "using_switchDirTemp repo patchScrollbarThumbBg_steps w = (Inr True, w')"
    by (simp add: patchScrollbarThumbBg_def)
  from using_switchDirTemp_Inr [OF assms(1) this]
  obtain es w2 es' where d: "dirs w ?T = Some es"
    and b: "patchScrollbarThumbBg_steps ?w1 = (Inr True, w2)"
    and d2: "dirs w2 (cwd w) = Some es'"
    and w': "w' = w2\<lparr>cwd := cwd w\<rparr>"
    by blast
  from patchScrollbarThumbBg_steps_Inr [OF b]
  obtain entries where th: "dirs ?w1 (resolve (cwd ?w1) ''themes'') = Some entries"
    and loop: "patch_themes (map (\<lambda>entry. ''themes/'' @ entry_name entry)
                          (filter (\<lambda>entry. endsWith ''.json'' (entry_name entry)) entries))
             False ?w1 = (Inr True, w2)"
    by blast
  let ?ps = "map (\<lambda>entry. ''themes/'' @ entry_name entry)
               (filter (\<lambda>entry. endsWith ''.json'' (entry_name entry)) entries)"
  from patch_themes_frame [OF loop] have c2: "cwd w2 = ?T" and dd: "dirs w2 = dirs w"
    by simp_all
  have "\<forall>p\<in>set ?ps. key_free_at (resolve (cwd w2) p) w2"
    using patch_themes_all_key_free [OF loop] c2 by simp
  then have noop: "patch_themes ?ps False w2 = (Inr False, w2)"
    by (rule patch_themes_nothing_to_do)
  from th c2 dd have "dirs w2 (resolve (cwd w2) ''themes'') = Some entries"
    by simp
  with noop have clean: "patchScrollbarThumbBg_steps w2 = (Inr False, w2)"
    by (simp add: patchScrollbarThumbBg_steps_clean)
  from w' have cw: "cwd w' = cwd w" and dw: "dirs w' = dirs w2" by simp_all
  from w' c2 have again: "w'\<lparr>cwd := resolve (cwd w') repo\<rparr> = w2" by simp
  have "using_switchDirTemp repo patchScrollbarThumbBg_steps w' = (Inr False, w2\<lparr>cwd := cwd w'\<rparr>)"
  proof (rule using_switchDirTemp_runs)
    show "is_absolute (cwd w')" using cw assms(1) by simp
    show "dirs w' (resolve (cwd w') repo) = Some es" using cw dw dd d by simp
    show "patchScrollbarThumbBg_steps (w'\<lparr>cwd := resolve (cwd w') repo\<rparr>) = (Inr False, w2)"
      using again clean by simp
    show "dirs w2 (cwd w') = Some es'" using cw d2 by simp
  qed
  with w' cw show ?thesis
    by (simp add: patchScrollbarThumbBg_def)
qed


theorem patchScrollbarThumbBg_idempotent_witness:
  "is_absolute (cwd theme_world) \<and>
   fst (patchScrollbarThumbBg ''repo'' theme_world) = Inr True \<and>
   files (snd (patchScrollbarThumbBg ''repo'' theme_world)) ''/work/repo/themes/b.json''
     = Some ''{ scrollbar.thumb.background: 1, x.scrollbar.thumb.background: 2 }'' \<and>
   patchScrollbarThumbBg ''repo'' (snd (patchScrollbarThumbBg ''repo'' theme_world))
     = (Inr False, snd (patchScrollbarThumbBg ''repo'' theme_world))"
proof -
  have abs: "is_absolute (cwd theme_world)"
    by (simp add: theme_world_def is_absolute_def)
  have run: "fst (patchScrollbarThumbBg ''repo'' theme_world) = Inr True \<and>
     files (snd (patchScrollbarThumbBg ''repo'' theme_world)) ''/work/repo/themes/b.json''
       = Some ''{ scrollbar.thumb.background: 1, x.scrollbar.thumb.background: 2 }''"
    by (simp add: patchScrollbarThumbBg_def patchScrollbarThumbBg_steps_def findThemes_def
        using_switchDirTemp_def switchDirTemp_def chdir_def dispose_def resolve_def
        readDirSync_def readTextFileSync_def writeTextFileSync_def endsWith_def
        theme_world_def old_key_def new_key_def replaceAll.simps)
  then have "patchScrollbarThumbBg ''repo'' theme_world
      = (Inr True, snd (patchScrollbarThumbBg ''repo'' theme_world))"
    by (simp add: prod_eq_iff)
  with abs have "patchScrollbarThumbBg ''repo'' (snd (patchScrollbarThumbBg ''repo'' theme_world))
     = (Inr False, snd (patchScrollbarThumbBg ''repo'' theme_world))"
    by (rule patchScrollbarThumbBg_idempotent)
  with abs run show ?thesis by simp
qed

section \<open>Properties of the manifest port\<close>

text \<open>Evaluating the version functions and the example libraries and worlds.\<close>

lemmas semver_defs = parseSemVer_def parse_version_string_def MAX_LENGTH_def trim_def is_space_def
  break_at_def is_numeric_id_def is_digit_def parseNumber_def dec_value_def digit_val_def
  MAX_SAFE_INTEGER_def incrementSemVer_def formatSemVer_def digit_char_def Let_def
  is_prerelease_id_def is_build_id_def is_ident_char_def parsePrerelease_def parseBuild_def
  show_prerelease_id_def



text \<open>
  C6. Whenever \<^verbatim>\<open>extension.toml\<close> exists in the working directory, \<open>portExtToToml\<close>
  returns \<^verbatim>\<open>false\<close> and leaves the world as it is, whatever the library functions do and
  whatever is or is not at \<^verbatim>\<open>extension.json\<close>: no file is written, and neither the
  read of the legacy manifest nor its parse can make the call fail.
\<close>

theorem portExtToToml_noop_when_ported:
  "existsSync ''extension.toml'' w \<Longrightarrow> portExtToToml L w = (Inr False, w)"
  by (simp add: portExtToToml_def)

theorem portExtToToml_noop_when_ported_witness:
  "existsSync ''extension.toml'' ported_world \<and>
   \<not> existsSync ''extension.json'' ported_world \<and>
   portExtToToml failing_libs ported_world = (Inr False, ported_world) \<and>
   portExtToToml example_libs ported_world = (Inr False, ported_world)"
  using portExtToToml_noop_when_ported [of ported_world failing_libs]
    portExtToToml_noop_when_ported [of ported_world example_libs]
  by (simp add: existsSync_def resolve_def ported_world_def in_repo_def)

lemma findRepoConfig_loop_find:
  "findRepoConfig_loop path entries w =
     (case find is_toml_file entries of
        None \<Rightarrow> (Inr None, w)
      | Some entry \<Rightarrow>
          (case readTextFileSync (path @ ''/grammars/'' @ entry_name entry) w of
             (Inl e, w1) \<Rightarrow> (Inl e, w1)
           | (Inr content, w1) \<Rightarrow> (Inr (Some (strip_toml (entry_name entry), content)), w1)))"
  by (induction entries) auto

lemma find_first:
  "list_all (\<lambda>x. \<not> P x) before \<Longrightarrow> P x \<Longrightarrow> find P (before @ x # after) = Some x"
  by (induction before) auto

lemma findRepoConfig_absent:
  "\<not> existsSync (path @ ''/grammars'') w \<Longrightarrow> findRepoConfig path w = (Inr None, w)"
  by (simp add: findRepoConfig_def)

lemma findRepoConfig_listed:
  assumes "dirs w (resolve (cwd w) (path @ ''/grammars'')) = Some entries"
  shows "findRepoConfig path w = findRepoConfig_loop path entries w"
  using assms by (simp add: findRepoConfig_def existsSync_def readDirSync_def)

lemma findRepoConfig_no_toml:
  assumes "dirs w (resolve (cwd w) (path @ ''/grammars'')) = Some entries"
    and "find is_toml_file entries = None"
  shows "findRepoConfig path w = (Inr None, w)"
  using assms by (simp add: findRepoConfig_listed findRepoConfig_loop_find)

lemma findRepoConfig_first:
  assumes "dirs w (resolve (cwd w) (path @ ''/grammars'')) = Some (before @ entry # after)"
    and "list_all (\<lambda>e. \<not> is_toml_file e) before"
    and "is_toml_file entry"
    and "files w (resolve (cwd w) (path @ ''/grammars/'' @ entry_name entry)) = Some content"
  shows "findRepoConfig path w = (Inr (Some (strip_toml (entry_name entry), content)), w)"
  using assms
  by (simp add: findRepoConfig_listed findRepoConfig_loop_find find_first readTextFileSync_def)

lemma portExtToToml_runs:
  assumes "\<not> existsSync ''extension.toml'' w"
    and "files w (resolve (cwd w) ''extension.json'') = Some legacy"
    and "JSON_parse L legacy = Some jsonConfig"
    and "ported_config L jsonConfig = Inr obj"
    and "stringifyToml L obj = Inr tomlConfig"
    and "findRepoConfig (cwd w) w = (Inr maybeRepoConfig, w)"
  shows "portExtToToml L w =
         (Inr True,
          writeTextFileSync ''extension.toml'' (tomlConfig @ grammar_section maybeRepoConfig) w)"
  using assms
  by (auto simp: portExtToToml_def ported_config_def readTextFileSync_def split: sum.splits)

lemma portExtToToml_one_grammar:
  assumes "\<not> existsSync ''extension.toml'' w"
    and "files w (resolve (cwd w) ''extension.json'') = Some legacy"
    and "JSON_parse L legacy = Some jsonConfig"
    and "ported_config L jsonConfig = Inr obj"
    and "stringifyToml L obj = Inr tomlConfig"
    and "dirs w (resolve (cwd w) (cwd w @ ''/grammars'')) = Some (before @ entry # after)"
    and "list_all (\<lambda>e. \<not> is_toml_file e) before"
    and "is_toml_file entry"
    and "files w (resolve (cwd w) (cwd w @ ''/grammars/'' @ entry_name entry)) = Some content"
  shows "portExtToToml L w =
         (Inr True,
          writeTextFileSync ''extension.toml''
            (tomlConfig @ grammar_section (Some (strip_toml (entry_name entry), content))) w)"
proof -
  from assms(6-9)
  have "findRepoConfig (cwd w) w = (Inr (Some (strip_toml (entry_name entry), content)), w)"
    by (rule findRepoConfig_first)
  with assms(1-5) show ?thesis
    by (rule portExtToToml_runs)
qed

lemma portExtToToml_no_grammar:
  assumes "\<not> existsSync ''extension.toml'' w"
    and "files w (resolve (cwd w) ''extension.json'') = Some legacy"
    and "JSON_parse L legacy = Some jsonConfig"
    and "ported_config L jsonConfig = Inr obj"
    and "stringifyToml L obj = Inr tomlConfig"
    and "no_companion_config w"
  shows "portExtToToml L w = (Inr True, writeTextFileSync ''extension.toml'' tomlConfig w)"
proof -
  from assms(6) have "findRepoConfig (cwd w) w = (Inr None, w)"
    by (auto simp: no_companion_config_def findRepoConfig_absent findRepoConfig_no_toml
        split: option.splits)
  with assms(1-5) have "portExtToToml L w =
    (Inr True, writeTextFileSync ''extension.toml'' (tomlConfig @ grammar_section None) w)"
    by (rule portExtToToml_runs)
  then show ?thesis by (simp add: grammar_section_def)
qed

text \<open>
  C10. \<open>findRepoConfig\<close> returns nothing when there is no \<^verbatim>\<open>grammars\<close>, and nothing when
  the directory lists no file whose name ends in \<^verbatim>\<open>.toml\<close>; otherwise it returns the
  first such file in iteration order, with its content, whatever entries follow it. The
  port embeds at most one grammar: where it runs (no \<^verbatim>\<open>extension.toml\<close>, a legacy
  manifest that parses, is ported and is serialized to \<open>tomlConfig\<close>), the text it writes is
  \<open>tomlConfig\<close> followed by the one section of that first file, whatever TOML files are
  listed after it, and \<open>tomlConfig\<close> alone when there is no companion config.
\<close>

theorem findRepoConfig_first_toml:
  "(\<not> existsSync (path @ ''/grammars'') w \<longrightarrow> findRepoConfig path w = (Inr None, w)) \<and>
   (dirs w (resolve (cwd w) (path @ ''/grammars'')) = Some entries \<longrightarrow>
      find is_toml_file entries = None \<longrightarrow> findRepoConfig path w = (Inr None, w)) \<and>
   (dirs w (resolve (cwd w) (path @ ''/grammars'')) = Some (before @ entry # after) \<longrightarrow>
      list_all (\<lambda>e. \<not> is_toml_file e) before \<longrightarrow> is_toml_file entry \<longrightarrow>
      files w (resolve (cwd w) (path @ ''/grammars/'' @ entry_name entry)) = Some content \<longrightarrow>
      findRepoConfig path w = (Inr (Some (strip_toml (entry_name entry), content)), w)) \<and>
   (\<not> existsSync ''extension.toml'' w \<longrightarrow>
    files w (resolve (cwd w) ''extension.json'') = Some legacy \<longrightarrow>
    JSON_parse L legacy = Some jsonConfig \<longrightarrow>
    ported_config L jsonConfig = Inr obj \<longrightarrow>
    stringifyToml L obj = Inr tomlConfig \<longrightarrow>
      (dirs w (resolve (cwd w) (cwd w @ ''/grammars'')) = Some (before @ entry # after) \<longrightarrow>
       list_all (\<lambda>e. \<not> is_toml_file e) before \<longrightarrow> is_toml_file entry \<longrightarrow>
       files w (resolve (cwd w) (cwd w @ ''/grammars/'' @ entry_name entry)) = Some content \<longrightarrow>
         portExtToToml L w =
           (Inr True,
            writeTextFileSync ''extension.toml''
              (tomlConfig @ grammar_section (Some (strip_toml (entry_name entry), content))) w)) \<and>
      (no_companion_config w \<longrightarrow>
         portExtToToml L w = (Inr True, writeTextFileSync ''extension.toml'' tomlConfig w)))"
  using findRepoConfig_absent [of path w] findRepoConfig_no_toml [of w path entries]
    findRepoConfig_first [of w path before entry after content]
    portExtToToml_one_grammar [of w legacy L jsonConfig obj tomlConfig before entry after content]
    portExtToToml_no_grammar [of w legacy L jsonConfig obj tomlConfig]
  by blast

theorem findRepoConfig_first_toml_witness:
  \<open>\<not> existsSync (cwd legacy_world @ ''/grammars'') legacy_world \<and>
   findRepoConfig (cwd legacy_world) legacy_world = (Inr None, legacy_world) \<and>
   dirs grammar_world (resolve (cwd grammar_world) (cwd grammar_world @ ''/grammars''))
     = Some ([\<lparr>entry_name = ''queries.toml'', entry_isFile = False\<rparr>,
              \<lparr>entry_name = ''README.md'', entry_isFile = True\<rparr>] @
             \<lparr>entry_name = ''rust.toml'', entry_isFile = True\<rparr> #
             [\<lparr>entry_name = ''go.toml'', entry_isFile = True\<rparr>]) \<and>
   list_all (\<lambda>e. \<not> is_toml_file e)
     [\<lparr>entry_name = ''queries.toml'', entry_isFile = False\<rparr>,
      \<lparr>entry_name = ''README.md'', entry_isFile = True\<rparr>] \<and>
   is_toml_file \<lparr>entry_name = ''rust.toml'', entry_isFile = True\<rparr> \<and>
   is_toml_file \<lparr>entry_name = ''go.toml'', entry_isFile = True\<rparr> \<and>
   findRepoConfig (cwd grammar_world) grammar_world
     = (Inr (Some (''rust'', rust_config)), grammar_world) \<and>
   \<not> existsSync ''extension.toml'' grammar_world \<and>
   files grammar_world (resolve (cwd grammar_world) ''extension.json'') = Some legacy_manifest \<and>
   JSON_parse example_libs legacy_manifest = Some legacy_object \<and>
   ported_config example_libs legacy_object = Inr ported_object \<and>
   stringifyToml example_libs ported_object = Inr ported_toml \<and>
   portExtToToml example_libs grammar_world
     = (Inr True,
        writeTextFileSync ''extension.toml''
          (ported_toml @ ''grammar = "rust"\<newline>[grammars.rust]\<newline>path = "grammars/rust"'')
          grammar_world) \<and>
   no_companion_config legacy_world \<and>
   portExtToToml example_libs legacy_world
     = (Inr True, writeTextFileSync ''extension.toml'' ported_toml legacy_world)\<close>
proof -
  have port: "ported_config example_libs legacy_object = Inr ported_object"
    by (simp add: ported_config_def example_libs_def legacy_object_def ported_object_def
        semver_defs)
  have lib: "JSON_parse example_libs legacy_manifest = Some legacy_object \<and>
             stringifyToml example_libs ported_object = Inr ported_toml"
    by (simp add: example_libs_def example_parse_def)
  show ?thesis
    using port lib
      findRepoConfig_first_toml
        [where path = "cwd legacy_world" and w = legacy_world and L = example_libs
           and legacy = legacy_manifest and jsonConfig = legacy_object and obj = ported_object
           and tomlConfig = ported_toml]
      findRepoConfig_first_toml
        [where path = "cwd grammar_world" and w = grammar_world and L = example_libs
           and legacy = legacy_manifest and jsonConfig = legacy_object and obj = ported_object
           and tomlConfig = ported_toml
           and before = "[\<lparr>entry_name = ''queries.toml'', entry_isFile = False\<rparr>,
                          \<lparr>entry_name = ''README.md'', entry_isFile = True\<rparr>]"
           and entry = "\<lparr>entry_name = ''rust.toml'', entry_isFile = True\<rparr>"
           and after = "[\<lparr>entry_name = ''go.toml'', entry_isFile = True\<rparr>]"
           and content = rust_config]
    by (simp add: legacy_world_def grammar_world_def in_repo_def existsSync_def resolve_def
        is_toml_file_def endsWith_def strip_toml_def no_companion_config_def
        grammar_section_def rust_config_def)
qed

lemma bump_1_0_0:
  "parseSemVer (Some (JStr ''1.0.0'')) = Inr \<lparr>major = 1, minor = 0, patch = 0, prerelease = [], build = []\<rparr> \<and>
   formatSemVer (incrementSemVer \<lparr>major = 1, minor = 0, patch = 0, prerelease = [], build = []\<rparr>) = ''1.0.1''"
  by (simp add: semver_defs)

lemma no_companion_findRepoConfig:
  "no_companion_config w \<Longrightarrow> findRepoConfig (cwd w) w = (Inr None, w)"
  by (auto simp: no_companion_config_def findRepoConfig_absent findRepoConfig_no_toml
      split: option.splits)

lemma portExtToToml_ported_object:
  assumes "JSON_parse L legacy_manifest = Some legacy_object"
    and "kebabCase L (Some (JStr ''My Cool Ext'')) = Inr ''my-cool-ext''"
    and "stringifyToml L ported_object = Inr ported_toml"
    and "\<not> existsSync ''extension.toml'' w"
    and "files w (resolve (cwd w) ''extension.json'') = Some legacy_manifest"
    and "findRepoConfig (cwd w) w = (Inr maybeRepoConfig, w)"
  shows "portExtToToml L w =
         (Inr True, writeTextFileSync ''extension.toml''
                      (ported_toml @ grammar_section maybeRepoConfig) w)"
proof -
  have obj: "JObj (set_field ''schema_version'' (JNum 1)
               (set_field ''version'' (JStr ''1.0.1'')
                 (set_field ''id'' (JStr ''my-cool-ext'')
                   [(''name'', JStr ''My Cool Ext''), (''version'', JStr ''1.0.0'')]))) = ported_object"
    by (simp add: ported_object_def)
  from assms bump_1_0_0 obj show ?thesis
    by (simp add: portExtToToml_def readTextFileSync_def legacy_object_def)
qed

text \<open>
  C4. With library functions that parse the legacy manifest to its object, turn
  \<^verbatim>\<open>My Cool Ext\<close> into \<^verbatim>\<open>my-cool-ext\<close> and serialize the ported object to its TOML text:
  in a clone with that \<^verbatim>\<open>extension.json\<close>, no \<^verbatim>\<open>extension.toml\<close> and no companion
  config, \<open>portExtToToml\<close> returns \<^verbatim>\<open>true\<close> and writes \<^verbatim>\<open>extension.toml\<close> with the
  serialization of \<^verbatim>\<open>{ name, version: "1.0.1", id: "my-cool-ext", schema_version: 1 }\<close>
  and nothing after it; that text holds the three key lines and no \<^verbatim>\<open>grammar\<close>.
\<close>

theorem portExtToToml_legacy_manifest:
  assumes "JSON_parse L legacy_manifest = Some legacy_object"
    and "kebabCase L (Some (JStr ''My Cool Ext'')) = Inr ''my-cool-ext''"
    and "stringifyToml L ported_object = Inr ported_toml"
    and "\<not> existsSync ''extension.toml'' w"
    and "files w (resolve (cwd w) ''extension.json'') = Some legacy_manifest"
    and "no_companion_config w"
  shows \<open>portExtToToml L w = (Inr True, writeTextFileSync ''extension.toml'' ported_toml w) \<and>
         str_includes ''id = "my-cool-ext"'' ported_toml \<and>
         str_includes ''version = "1.0.1"'' ported_toml \<and>
         str_includes ''schema_version = 1'' ported_toml \<and>
         \<not> str_includes ''grammar'' ported_toml\<close>
proof -
  from assms(6) have "findRepoConfig (cwd w) w = (Inr None, w)"
    by (rule no_companion_findRepoConfig)
  from portExtToToml_ported_object [OF assms(1-5) this]
  have "portExtToToml L w = (Inr True, writeTextFileSync ''extension.toml'' ported_toml w)"
    by (simp add: grammar_section_def)
  moreover have \<open>str_includes ''id = "my-cool-ext"'' ported_toml\<close>
    by (simp add: ported_toml_def)
  moreover have \<open>str_includes ''version = "1.0.1"'' ported_toml\<close>
    by (simp add: ported_toml_def)
  moreover have \<open>str_includes ''schema_version = 1'' ported_toml\<close>
    by (simp add: ported_toml_def)
  moreover have \<open>\<not> str_includes ''grammar'' ported_toml\<close>
    by (simp add: ported_toml_def)
  ultimately show ?thesis by simp
qed

theorem portExtToToml_legacy_manifest_witness:
  \<open>JSON_parse example_libs legacy_manifest = Some legacy_object \<and>
   kebabCase example_libs (Some (JStr ''My Cool Ext'')) = Inr ''my-cool-ext'' \<and>
   stringifyToml example_libs ported_object = Inr ported_toml \<and>
   \<not> existsSync ''extension.toml'' legacy_world \<and>
   files legacy_world (resolve (cwd legacy_world) ''extension.json'') = Some legacy_manifest \<and>
   no_companion_config legacy_world \<and>
   portExtToToml example_libs legacy_world
     = (Inr True, writeTextFileSync ''extension.toml'' ported_toml legacy_world) \<and>
   files (snd (portExtToToml example_libs legacy_world)) ''/work/repo/extension.toml''
     = Some ported_toml\<close>
  using portExtToToml_legacy_manifest [of example_libs legacy_world]
  by (simp add: example_libs_def example_parse_def legacy_world_def in_repo_def existsSync_def
      resolve_def no_companion_config_def writeTextFileSync_def)

text \<open>
  C5. The same clone with a \<^verbatim>\<open>grammars\<close> directory whose first TOML file is
  \<^verbatim>\<open>rust.toml\<close>: the text written is the serialized manifest,
  \<^verbatim>\<open>grammar = "rust"\<close>, a line feed, the header \<^verbatim>\<open>[grammars.rust]\<close>, a line feed, and the
  content of \<^verbatim>\<open>grammars/rust.toml\<close> as it is.
\<close>

theorem portExtToToml_companion:
  assumes "JSON_parse L legacy_manifest = Some legacy_object"
    and "kebabCase L (Some (JStr ''My Cool Ext'')) = Inr ''my-cool-ext''"
    and "stringifyToml L ported_object = Inr ported_toml"
    and "\<not> existsSync ''extension.toml'' w"
    and "files w (resolve (cwd w) ''extension.json'') = Some legacy_manifest"
    and "dirs w (resolve (cwd w) (cwd w @ ''/grammars''))
           = Some (before @ \<lparr>entry_name = ''rust.toml'', entry_isFile = True\<rparr> # after)"
    and "list_all (\<lambda>e. \<not> is_toml_file e) before"
    and "files w (resolve (cwd w) (cwd w @ ''/grammars/rust.toml'')) = Some content"
  shows \<open>portExtToToml L w =
         (Inr True,
          writeTextFileSync ''extension.toml''
            (ported_toml @ ''grammar = "rust"\<newline>[grammars.rust]\<newline>'' @ content) w)\<close>
proof -
  have "is_toml_file \<lparr>entry_name = ''rust.toml'', entry_isFile = True\<rparr>"
    by (simp add: is_toml_file_def endsWith_def)
  with assms(6,7,8) have "findRepoConfig (cwd w) w = (Inr (Some (strip_toml ''rust.toml'', content)), w)"
    using findRepoConfig_first [of w "cwd w" before "\<lparr>entry_name = ''rust.toml'', entry_isFile = True\<rparr>" after content]
    by simp
  from portExtToToml_ported_object [OF assms(1-5) this]
  show ?thesis
    by (simp add: grammar_section_def strip_toml_def endsWith_def)
qed

theorem portExtToToml_companion_witness:
  \<open>JSON_parse example_libs legacy_manifest = Some legacy_object \<and>
   kebabCase example_libs (Some (JStr ''My Cool Ext'')) = Inr ''my-cool-ext'' \<and>
   stringifyToml example_libs ported_object = Inr ported_toml \<and>
   \<not> existsSync ''extension.toml'' grammar_world \<and>
   files grammar_world (resolve (cwd grammar_world) ''extension.json'') = Some legacy_manifest \<and>
   dirs grammar_world (resolve (cwd grammar_world) (cwd grammar_world @ ''/grammars''))
     = Some ([\<lparr>entry_name = ''queries.toml'', entry_isFile = False\<rparr>,
              \<lparr>entry_name = ''README.md'', entry_isFile = True\<rparr>] @
             \<lparr>entry_name = ''rust.toml'', entry_isFile = True\<rparr> #
             [\<lparr>entry_name = ''go.toml'', entry_isFile = True\<rparr>]) \<and>
   list_all (\<lambda>e. \<not> is_toml_file e)
     [\<lparr>entry_name = ''queries.toml'', entry_isFile = False\<rparr>,
      \<lparr>entry_name = ''README.md'', entry_isFile = True\<rparr>] \<and>
   files grammar_world (resolve (cwd grammar_world) (cwd grammar_world @ ''/grammars/rust.toml''))
     = Some rust_config \<and>
   fst (portExtToToml example_libs grammar_world) = Inr True \<and>
   files (snd (portExtToToml example_libs grammar_world)) ''/work/repo/extension.toml''
     = Some ''name = "My Cool Ext"\<newline>version = "1.0.1"\<newline>id = "my-cool-ext"\<newline>schema_version = 1\<newline>grammar = "rust"\<newline>[grammars.rust]\<newline>path = "grammars/rust"''\<close>
  using portExtToToml_companion [of example_libs grammar_world
      "[\<lparr>entry_name = ''queries.toml'', entry_isFile = False\<rparr>,
        \<lparr>entry_name = ''README.md'', entry_isFile = True\<rparr>]"
      "[\<lparr>entry_name = ''go.toml'', entry_isFile = True\<rparr>]" rust_config]
  by (simp add: example_libs_def example_parse_def grammar_world_def in_repo_def existsSync_def
      resolve_def writeTextFileSync_def is_toml_file_def endsWith_def ported_toml_def rust_config_def)


section \<open>Properties of getExistingPR\<close>

text \<open>
  C9. When \<^verbatim>\<open>gh pr list\<close> reports failure, \<open>getExistingPR\<close> returns \<^verbatim>\<open>null\<close> without
  throwing and without parsing anything; that is the value it returns when the command
  succeeds and lists no PR. With \<^verbatim>\<open>null\<close> neither bot takes its update path: both go on
  to the path that opens a new PR.
\<close>

theorem getExistingPR_failure_is_null:
  "(\<not> success (fst (exec (pr_list_command user repo username) w)) \<longrightarrow>
      getExistingPR L exec user repo username w
        = (Inr (Some JNull), snd (run exec (pr_list_command user repo username) w))) \<and>
   (success (fst (exec (pr_list_command user repo username) w)) \<longrightarrow>
    JSON_parse L (stdout (fst (exec (pr_list_command user repo username) w))) = Some (JArr []) \<longrightarrow>
      getExistingPR L exec user repo username w
        = (Inr (Some JNull), snd (run exec (pr_list_command user repo username) w))) \<and>
   \<not> update_path_2101 (Some JNull) \<and>
   \<not> update_path_2104 (Some JNull)"
  by (auto simp: getExistingPR_def run_def update_path_2101_def update_path_2104_def
      split: prod.splits)

theorem getExistingPR_failure_is_null_witness:
  "\<not> success (fst (exec_failing (pr_list_command ''owner'' ''repo'' ''bot'') work_world)) \<and>
   fst (getExistingPR failing_libs exec_failing ''owner'' ''repo'' ''bot'' work_world) = Inr (Some JNull) \<and>
   success (fst (exec_no_pr (pr_list_command ''owner'' ''repo'' ''bot'') work_world)) \<and>
   JSON_parse example_libs (stdout (fst (exec_no_pr (pr_list_command ''owner'' ''repo'' ''bot'') work_world)))
     = Some (JArr []) \<and>
   fst (getExistingPR example_libs exec_no_pr ''owner'' ''repo'' ''bot'' work_world) = Inr (Some JNull)"
  using getExistingPR_failure_is_null [of exec_failing "''owner''" "''repo''" "''bot''" work_world failing_libs]
    getExistingPR_failure_is_null [of exec_no_pr "''owner''" "''repo''" "''bot''" work_world example_libs]
  by (simp add: exec_failing_def exec_no_pr_def example_libs_def example_parse_def
      legacy_manifest_def toml_manifest_def json_manifest_def prerelease_manifest_def
      compact_manifest_def)

section \<open>Properties of the version bump\<close>









end
